theory Spec2Isabelle
  imports Main "HOL-Library.Finite_Map" "HOL-Library.AList" "HOL-Library.Sublist"
begin

section \<open>JavaScript values, errors and number printing\<close>

text \<open>
  The dashboard is one JavaScript class, \<open>WebMotionDashboard\<close>, working on the browser
  document. Values that the code reads from tab configurations are modelled by \<open>jsval\<close>;
  an object is a finite map from property names to values. Numbers are the integers (tab
  ids are integers; fractions and the loss of precision beyond 2^53 are not modelled).
\<close>

datatype jsval = Undefined | Null | Num int | Str string | Obj "(string, jsval) fmap"

text \<open>
  A thrown exception is a value: \<open>Error msg\<close> is \<open>new Error(msg)\<close>, \<open>TypeError msg\<close> is the
  engine's error on reading a property of \<open>undefined\<close> or \<open>null\<close> (the wording of its message
  is V8's).
\<close>

datatype error = Error string | TypeError string

fun message :: "error \<Rightarrow> string" where
  "message (Error m) = m"
| "message (TypeError m) = m"

text \<open>\<open>Array.prototype.findIndex\<close>, with \<open>None\<close> for \<open>-1\<close>.\<close>

fun findIndex :: "('a \<Rightarrow> bool) \<Rightarrow> 'a list \<Rightarrow> nat option" where
  "findIndex P [] = None"
| "findIndex P (x # xs) = (if P x then Some 0 else map_option Suc (findIndex P xs))"

text \<open>The decimal digits: the character of a digit below ten, and the digit of a character.\<close>

definition decimalDigits :: string where
  "decimalDigits = ''0123456789''"

definition digitChar :: "nat \<Rightarrow> char" where
  "digitChar d = decimalDigits ! d"

definition isDigit :: "char \<Rightarrow> bool" where
  "isDigit c = (c \<in> set decimalDigits)"

definition digitVal :: "char \<Rightarrow> nat" where
  "digitVal c = (case findIndex (\<lambda>x. x = c) decimalDigits of None \<Rightarrow> 0 | Some d \<Rightarrow> d)"

text \<open>\<open>Number.prototype.toString\<close> on an integer: decimal digits, a minus sign when negative.\<close>

fun natToString :: "nat \<Rightarrow> string" where
  "natToString n =
     (if n < 10 then [digitChar n] else natToString (n div 10) @ [digitChar (n mod 10)])"

declare natToString.simps [simp del]

definition numToString :: "int \<Rightarrow> string" where
  "numToString n = (if n < 0 then ''-'' @ natToString (nat (- n)) else natToString (nat n))"

text \<open>\<open>parseInt(s, 10)\<close> on a non-empty string of decimal digits.\<close>

definition parseInt :: "string \<Rightarrow> int" where
  "parseInt ds = int (foldl (\<lambda>acc c. 10 * acc + digitVal c) 0 ds)"

text \<open>The string a template literal \<open>${v}\<close> inserts for a value.\<close>

fun toString :: "jsval \<Rightarrow> string" where
  "toString Undefined = ''undefined''"
| "toString Null = ''null''"
| "toString (Num n) = numToString n"
| "toString (Str s) = s"
| "toString (Obj m) = ''[object Object]''"

text \<open>
  Reading a property: \<open>v.k\<close>. On \<open>undefined\<close> and \<open>null\<close> the engine throws a TypeError; on
  an object a missing property is \<open>undefined\<close>; the properties read by this program
  (\<open>id\<close>, \<open>title\<close>, \<open>country\<close>, \<open>code\<close>, \<open>name\<close>, \<open>addressType\<close>) are \<open>undefined\<close> on a number
  and on a string.
\<close>

definition readProp :: "(string, jsval) fmap \<Rightarrow> string \<Rightarrow> jsval" where
  "readProp obj k = (case fmlookup obj k of None \<Rightarrow> Undefined | Some v \<Rightarrow> v)"

fun getProp :: "jsval \<Rightarrow> string \<Rightarrow> error + jsval" where
  "getProp Undefined k =
     Inl (TypeError (''Cannot read properties of undefined (reading '' @ [CHR 0x27] @ k @ [CHR 0x27] @ '')''))"
| "getProp Null k =
     Inl (TypeError (''Cannot read properties of null (reading '' @ [CHR 0x27] @ k @ [CHR 0x27] @ '')''))"
| "getProp (Obj m) k = Inr (readProp m k)"
| "getProp (Num n) k = Inr Undefined"
| "getProp (Str s) k = Inr Undefined"

text \<open>JavaScript truthiness, as \<open>if (v)\<close> and \<open>!v\<close> read it.\<close>

fun truthy :: "jsval \<Rightarrow> bool" where
  "truthy Undefined = False"
| "truthy Null = False"
| "truthy (Num n) = (n \<noteq> 0)"
| "truthy (Str s) = (s \<noteq> [])"
| "truthy (Obj m) = True"

section \<open>The document\<close>

text \<open>
  An element of the page, with what the code reads and writes of it: its \<open>id\<close>, its class
  list, its attributes, and its markup (\<open>innerHTML\<close>; \<open>textContent\<close> of a button is held
  here too). A handle on an element is its index in the store \<open>nodes\<close>, which lists the
  elements in document order; every handle the methods use comes from a query on the
  document or is the element a listener was bound to, so it is an index of the store.
  \<open>remove()\<close> detaches an element: the JavaScript object lives on, but no query on the
  document finds it any more. An element without an \<open>id\<close> has the empty string as
  \<open>elemId\<close>; no query of this program asks for the empty id.
\<close>

record element =
  elemId :: string
  classList :: "string list"
  attributes :: "(string \<times> string) list"
  innerHTML :: string
  attached :: bool

definition classAdd :: "string \<Rightarrow> element \<Rightarrow> element" where
  "classAdd c e = (if c \<in> set (classList e) then e else e\<lparr>classList := classList e @ [c]\<rparr>)"

definition classRemove :: "string \<Rightarrow> element \<Rightarrow> element" where
  "classRemove c e = e\<lparr>classList := removeAll c (classList e)\<rparr>"

definition classContains :: "string \<Rightarrow> element \<Rightarrow> bool" where
  "classContains c e = (c \<in> set (classList e))"

definition setAttribute :: "string \<Rightarrow> string \<Rightarrow> element \<Rightarrow> element" where
  "setAttribute k v e = e\<lparr>attributes := AList.update k v (attributes e)\<rparr>"

text \<open>A custom event dispatched on the document: its name and its \<open>detail\<close>.\<close>

datatype event = CustomEvent string jsval

text \<open>One cell of a row template; \<open>cvalue\<close> is the cell's \<open>value\<close> property.\<close>

record cell =
  heading :: string
  cvalue :: string
  isCountry :: bool
  isAddressType :: bool

type_synonym tabConfig = "(string, jsval) fmap"

text \<open>
  The state: \<open>this.config\<close> (tabs and the two row templates), the document's elements, the
  focused element (\<open>document.activeElement\<close>; \<open>None\<close> is the body), the body's
  \<open>style.overflow\<close>, and the custom events dispatched so far, oldest first. Console output
  is not part of the state.
\<close>

record dashboard =
  tabs :: "tabConfig list"
  contentRows :: "cell list list"
  sectionRows :: "cell list list"
  nodes :: "element list"
  activeElement :: "nat option"
  bodyOverflow :: string
  dispatched :: "event list"

definition getElementById :: "string \<Rightarrow> dashboard \<Rightarrow> nat option" where
  "getElementById i this = findIndex (\<lambda>e. attached e \<and> elemId e = i) (nodes this)"

text \<open>\<open>document.querySelector('.c')\<close> for a class \<open>c\<close>: the first attached element of the class.\<close>

definition querySelector :: "string \<Rightarrow> dashboard \<Rightarrow> nat option" where
  "querySelector c this = findIndex (\<lambda>e. attached e \<and> classContains c e) (nodes this)"

text \<open>\<open>document.querySelectorAll('.c')\<close>: the handles of the attached elements of the class, in document order.\<close>

definition querySelectorAll :: "string \<Rightarrow> dashboard \<Rightarrow> nat list" where
  "querySelectorAll c this =
     filter (\<lambda>i. attached (nodes this ! i) \<and> classContains c (nodes this ! i)) [0..<length (nodes this)]"

text \<open>\<open>document.querySelectorAll('.c').forEach(f)\<close> where \<open>f\<close> mutates the element it is given.\<close>

definition forEachSelected :: "string \<Rightarrow> (element \<Rightarrow> element) \<Rightarrow> dashboard \<Rightarrow> dashboard" where
  "forEachSelected c f this =
     this\<lparr>nodes := map (\<lambda>e. if attached e \<and> classContains c e then f e else e) (nodes this)\<rparr>"

definition updateNode :: "nat \<Rightarrow> (element \<Rightarrow> element) \<Rightarrow> dashboard \<Rightarrow> dashboard" where
  "updateNode i f this = this\<lparr>nodes := (nodes this)[i := f (nodes this ! i)]\<rparr>"

text \<open>\<open>el.focus()\<close>.\<close>

definition focus :: "nat \<Rightarrow> dashboard \<Rightarrow> dashboard" where
  "focus i this = this\<lparr>activeElement := Some i\<rparr>"

text \<open>\<open>el.remove()\<close>: the element leaves the document; a removed element loses the focus.\<close>

definition removeNode :: "nat \<Rightarrow> dashboard \<Rightarrow> dashboard" where
  "removeNode i this =
     this\<lparr>nodes := (nodes this)[i := (nodes this ! i)\<lparr>attached := False\<rparr>],
          activeElement := (if activeElement this = Some i then None else activeElement this)\<rparr>"

section \<open>Events and errors\<close>

text \<open>
  \<open>dispatchCustomEvent\<close> dispatches on the document inside its own \<open>try\<close>; here the event
  joins the log.
\<close>

definition dispatchCustomEvent :: "string \<Rightarrow> jsval \<Rightarrow> dashboard \<Rightarrow> dashboard" where
  "dispatchCustomEvent eventName detail this =
     this\<lparr>dispatched := dispatched this @ [CustomEvent eventName detail]\<rparr>"

text \<open>
  \<open>handleError\<close> dispatches \<open>dashboardError\<close> with the error's message and the context.
  The fields \<open>stack\<close>, \<open>timestamp\<close> and \<open>userAgent\<close> of the detail come from the
  environment and are left out.
\<close>

definition handleError :: "error \<Rightarrow> string \<Rightarrow> dashboard \<Rightarrow> dashboard" where
  "handleError err ctx this =
     dispatchCustomEvent ''dashboardError''
       (Obj (fmap_of_list [(''message'', Str (message err)), (''context'', Str ctx)])) this"

section \<open>Tab activation\<close>

text \<open>
  \<open>a === b\<close>. Primitive values are equal when they are the same value. Objects are
  compared by reference, which the model does not hold: an object is found equal to
  nothing (no tab id met here is an object).
\<close>

fun isObj :: "jsval \<Rightarrow> bool" where
  "isObj (Obj m) = True"
| "isObj v = False"

definition strictEq :: "jsval \<Rightarrow> jsval \<Rightarrow> bool" where
  "strictEq a b = (\<not> isObj a \<and> \<not> isObj b \<and> a = b)"

text \<open>\<open>extractTabId\<close>: the digits that end the element id (\<open>/(\d+)$/\<close>), parsed, or \<open>null\<close>.\<close>

definition extractTabId :: "string \<Rightarrow> jsval" where
  "extractTabId elementId =
     (let ds = rev (takeWhile isDigit (rev elementId))
      in if ds = [] then Null else Num (parseInt ds))"

definition getActiveTabId :: "dashboard \<Rightarrow> jsval" where
  "getActiveTabId this =
     (case querySelector ''tab-navigation__button--active'' this of
        Some activeButton \<Rightarrow> extractTabId (elemId (nodes this ! activeButton))
      | None \<Rightarrow> Null)"

text \<open>\<open>this.config.tabs.find(tab => tab.id === tabId)?.title\<close>\<close>

definition findTabTitle :: "jsval \<Rightarrow> dashboard \<Rightarrow> jsval" where
  "findTabTitle tabId this =
     (case List.find (\<lambda>tab. strictEq (readProp tab ''id'') tabId) (tabs this) of
        None \<Rightarrow> Undefined
      | Some tab \<Rightarrow> readProp tab ''title'')"

text \<open>
  The body of the \<open>try\<close> in \<open>activateTab\<close>. A \<open>throw\<close> is \<open>Inl\<close> of the error and of the
  state reached when it was thrown: what the body did before stays done.
\<close>

definition activateTabBody :: "jsval \<Rightarrow> dashboard \<Rightarrow> (error \<times> dashboard) + dashboard" where
  "activateTabBody tabId this =
     (let this1 = forEachSelected ''tab-navigation__button''
                    (\<lambda>btn. setAttribute ''aria-selected'' ''false''
                             (classRemove ''tab-navigation__button--active'' btn)) this;
          this2 = forEachSelected ''tab-content'' (classRemove ''tab-content--active'') this1
      in case (getElementById (''tab-'' @ toString tabId) this2,
               getElementById (''tab-panel-'' @ toString tabId) this2) of
           (Some activeButton, Some activeContent) \<Rightarrow>
             (let this3 = updateNode activeButton
                            (\<lambda>b. setAttribute ''aria-selected'' ''true''
                                   (classAdd ''tab-navigation__button--active'' b)) this2;
                  this4 = updateNode activeContent (classAdd ''tab-content--active'') this3
              in Inr (dispatchCustomEvent ''tabChanged''
                        (Obj (fmap_of_list [(''tabId'', tabId),
                                            (''tabTitle'', findTabTitle tabId this4)])) this4))
         | _ \<Rightarrow> Inl (Error (''Tab elements not found for ID: '' @ toString tabId), this2))"

definition activateTab :: "jsval \<Rightarrow> dashboard \<Rightarrow> dashboard" where
  "activateTab tabId this =
     (case activateTabBody tabId this of
        Inr this' \<Rightarrow> this'
      | Inl (err, this') \<Rightarrow> handleError err ''tab-activation'' this')"

text \<open>The active markers: the handles of the attached elements that carry one.\<close>

definition activeMarkers :: "dashboard \<Rightarrow> nat list \<times> nat list" where
  "activeMarkers this =
     (querySelectorAll ''tab-navigation__button--active'' this,
      querySelectorAll ''tab-content--active'' this)"

section \<open>Removing a tab\<close>

text \<open>
  The body of the \<open>try\<close> in \<open>removeTab\<close>. Both elements are looked up before either is
  removed; \<open>splice\<close> deletes the entry at \<open>tabIndex\<close>; \<open>this.config.tabs[0]\<close> of an empty
  array is \<open>undefined\<close>, whose \<open>id\<close> cannot be read.
\<close>

definition removeTabBody :: "jsval \<Rightarrow> dashboard \<Rightarrow> (error \<times> dashboard) + dashboard" where
  "removeTabBody tabId this =
     (if length (tabs this) \<le> 1 then Inl (Error ''Cannot remove the last remaining tab'', this)
      else case findIndex (\<lambda>tab. strictEq (readProp tab ''id'') tabId) (tabs this) of
        None \<Rightarrow> Inl (Error (''Tab with ID '' @ toString tabId @ '' not found''), this)
      | Some tabIndex \<Rightarrow>
          (let this1 = this\<lparr>tabs := take tabIndex (tabs this) @ drop (Suc tabIndex) (tabs this)\<rparr>;
               button = getElementById (''tab-'' @ toString tabId) this1;
               panel = getElementById (''tab-panel-'' @ toString tabId) this1;
               this2 = (case button of Some b \<Rightarrow> removeNode b this1 | None \<Rightarrow> this1);
               this3 = (case panel of Some p \<Rightarrow> removeNode p this2 | None \<Rightarrow> this2)
           in if strictEq (getActiveTabId this3) tabId
              then (case tabs this3 of
                      [] \<Rightarrow> Inl (TypeError (''Cannot read properties of undefined (reading '' @ [CHR 0x27] @ ''id'' @ [CHR 0x27] @ '')''), this3)
                    | first # rest \<Rightarrow>
                        Inr (dispatchCustomEvent ''tabRemoved'' (Obj (fmap_of_list [(''tabId'', tabId)]))
                               (activateTab (readProp first ''id'') this3)))
              else Inr (dispatchCustomEvent ''tabRemoved'' (Obj (fmap_of_list [(''tabId'', tabId)])) this3)))"

definition removeTab :: "jsval \<Rightarrow> dashboard \<Rightarrow> dashboard" where
  "removeTab tabId this =
     (case removeTabBody tabId this of
        Inr this' \<Rightarrow> this'
      | Inl (err, this') \<Rightarrow> handleError err ''tab-remove'' this')"

section \<open>Rendering a panel\<close>

text \<open>
  \<open>xs.map(f)\<close> where \<open>f\<close> may throw: the first exception ends the loop and is the result.
\<close>

fun mapE :: "('a \<Rightarrow> error + 'b) \<Rightarrow> 'a list \<Rightarrow> error + 'b list" where
  "mapE f [] = Inr []"
| "mapE f (x # xs) =
     (case f x of
        Inl e \<Rightarrow> Inl e
      | Inr y \<Rightarrow> (case mapE f xs of Inl e \<Rightarrow> Inl e | Inr ys \<Rightarrow> Inr (y # ys)))"

text \<open>
  The template literals of the three rendering methods, character by character, with
  the interpolated strings as arguments.
\<close>

definition flagHTML :: "jsval \<Rightarrow> jsval \<Rightarrow> string" where
  "flagHTML code name =
        ''\<newline>'' @
        ''                        <img src=\"https://flagcdn.com/w20/'' @ toString code @ ''.png\" \<newline>'' @
        ''                             alt=\"'' @ toString name @ '' Flag\" \<newline>'' @
        ''                             class=\"tab-content__country-flag\"\<newline>'' @
        ''                             loading=\"lazy\">\<newline>'' @
        ''                        '' @ toString name @ ''\<newline>'' @
        ''                    ''"

definition itemHTML :: "string \<Rightarrow> string \<Rightarrow> string" where
  "itemHTML h v =
        ''\<newline>'' @
        ''                    <div class=\"tab-content__item\">\<newline>'' @
        ''                        <div class=\"tab-content__item-heading\">'' @ h @ ''</div>\<newline>'' @
        ''                        <div class=\"tab-content__item-value\">'' @ v @ ''</div>\<newline>'' @
        ''                    </div>\<newline>'' @
        ''                ''"

definition emptyColumnHTML :: string where
  "emptyColumnHTML = ''<div class=\"tab-content__item\"></div>''"

definition contentRowHTML :: "string \<Rightarrow> string \<Rightarrow> string" where
  "contentRowHTML columns empties =
        ''\<newline>'' @
        ''                <div class=\"tab-content__row\">\<newline>'' @
        ''                    '' @ columns @ ''\<newline>'' @
        ''                    '' @ empties @ ''\<newline>'' @
        ''                </div>\<newline>'' @
        ''            ''"

definition sectionRowHTML :: "string \<Rightarrow> string" where
  "sectionRowHTML columns =
        ''\<newline>'' @
        ''                <div class=\"tab-content__row\">\<newline>'' @
        ''                    '' @ columns @ ''\<newline>'' @
        ''                </div>\<newline>'' @
        ''            ''"

definition headingHTML :: "string \<Rightarrow> string" where
  "headingHTML t = ''            <h2 class=\"tab-content__heading\">'' @ t @ ''</h2>\<newline>''"

definition sectionTitleHTML :: "string \<Rightarrow> string" where
  "sectionTitleHTML t =
        ''                    <h3 class=\"tab-content__section-title\">'' @ t @ ''</h3>\<newline>''"

definition panelHTML :: "string \<Rightarrow> string \<Rightarrow> string \<Rightarrow> string \<Rightarrow> string" where
  "panelHTML t contentHTML pfx sectionHTML =
        ''\<newline>'' @
        headingHTML t @
        ''            <div class=\"tab-content__rows\">\<newline>'' @
        ''                '' @ contentHTML @ ''\<newline>'' @
        ''                \<newline>'' @
        ''                <!-- Section Heading -->\<newline>'' @
        ''                <div class=\"tab-content__section-heading\">\<newline>'' @
        sectionTitleHTML (pfx @ ''Lorem Ipsum'') @
        ''                </div>\<newline>'' @
        ''                \<newline>'' @
        ''                '' @ sectionHTML @ ''\<newline>'' @
        ''            </div>\<newline>'' @
        ''        ''"

text \<open>
  The callback of \<open>row.map\<close> in \<open>generateContentRows\<close>. For the country cell the template
  reads \<open>tabConfig.country.code\<close>, then \<open>tabConfig.country.name\<close>: with no \<open>country\<close> the
  first read throws.
\<close>

definition contentItem :: "tabConfig \<Rightarrow> string \<Rightarrow> cell \<Rightarrow> error + string" where
  "contentItem tabConfig pfx item =
     (if isCountry item
      then (case getProp (readProp tabConfig ''country'') ''code'' of
              Inl e \<Rightarrow> Inl e
            | Inr code \<Rightarrow>
                (case getProp (readProp tabConfig ''country'') ''name'' of
                   Inl e \<Rightarrow> Inl e
                 | Inr name \<Rightarrow> Inr (itemHTML (pfx @ ''Country'') (flagHTML code name))))
      else Inr (itemHTML (pfx @ heading item) (cvalue item)))"

definition generateContentRows :: "dashboard \<Rightarrow> tabConfig \<Rightarrow> string \<Rightarrow> error + string" where
  "generateContentRows this tabConfig pfx =
     (case mapE (\<lambda>row.
             case mapE (contentItem tabConfig pfx) row of
               Inl e \<Rightarrow> Inl e
             | Inr columns \<Rightarrow>
                 (let emptyColumns = nat (max 0 (3 - int (length row)))
                  in Inr (contentRowHTML (concat columns)
                            (concat (replicate emptyColumns emptyColumnHTML)))))
           (contentRows this) of
        Inl e \<Rightarrow> Inl e
      | Inr rows \<Rightarrow> Inr (concat rows))"

definition sectionItem :: "tabConfig \<Rightarrow> string \<Rightarrow> cell \<Rightarrow> string" where
  "sectionItem tabConfig pfx item =
     (if isAddressType item
      then itemHTML (pfx @ ''Address Type'') (toString (readProp tabConfig ''addressType''))
      else itemHTML (pfx @ heading item) (cvalue item))"

definition generateSectionRows :: "dashboard \<Rightarrow> tabConfig \<Rightarrow> string \<Rightarrow> string" where
  "generateSectionRows this tabConfig pfx =
     concat (map (\<lambda>row. sectionRowHTML (concat (map (sectionItem tabConfig pfx) row)))
               (sectionRows this))"

text \<open>\<open>const prefix = tabConfig.id === 1 ? '' : `Tab ${tabConfig.id} - `\<close>\<close>

definition tabPrefix :: "tabConfig \<Rightarrow> string" where
  "tabPrefix tabConfig =
     (if strictEq (readProp tabConfig ''id'') (Num 1) then []
      else ''Tab '' @ toString (readProp tabConfig ''id'') @ '' - '')"

text \<open>
  \<open>populateTabContent\<close> assigns the panel's \<open>innerHTML\<close>; the result is the panel as
  assigned. When a row generator throws, nothing has been assigned.
\<close>

definition populateTabContent :: "dashboard \<Rightarrow> element \<Rightarrow> tabConfig \<Rightarrow> error + element" where
  "populateTabContent this panel tabConfig =
     (let pfx = tabPrefix tabConfig
      in case generateContentRows this tabConfig pfx of
           Inl e \<Rightarrow> Inl e
         | Inr contentHTML \<Rightarrow>
             Inr (panel\<lparr>innerHTML :=
                    panelHTML (toString (readProp tabConfig ''title'')) contentHTML pfx
                      (generateSectionRows this tabConfig pfx)\<rparr>))"

text \<open>\<open>createTabPanel\<close>: a new element, not yet in the document.\<close>

definition createTabPanel :: "dashboard \<Rightarrow> tabConfig \<Rightarrow> error + element" where
  "createTabPanel this tabConfig =
     populateTabContent this
       \<lparr>elemId = ''tab-panel-'' @ toString (readProp tabConfig ''id''),
        classList = [''tab-content''],
        attributes = [(''role'', ''tabpanel''),
                      (''aria-labelledby'', ''tab-'' @ toString (readProp tabConfig ''id''))],
        innerHTML = [],
        attached = False\<rparr>
       tabConfig"

section \<open>Updating a tab\<close>

text \<open>
  The body of the \<open>try\<close> in \<open>updateTabContent\<close>. The spread
  \<open>{...this.config.tabs[tabIndex], ...newConfig}\<close> is the map of the old descriptor
  overridden by \<open>newConfig\<close>; it is stored before the panel is rendered.
\<close>

definition updateTabContentBody ::
    "jsval \<Rightarrow> tabConfig \<Rightarrow> dashboard \<Rightarrow> (error \<times> dashboard) + dashboard" where
  "updateTabContentBody tabId newConfig this =
     (case getElementById (''tab-panel-'' @ toString tabId) this of
        None \<Rightarrow> Inl (Error (''Tab panel not found for ID: '' @ toString tabId), this)
      | Some panel \<Rightarrow>
          (case findIndex (\<lambda>tab. strictEq (readProp tab ''id'') tabId) (tabs this) of
             None \<Rightarrow> Inl (Error (''Tab configuration not found for ID: '' @ toString tabId), this)
           | Some tabIndex \<Rightarrow>
               (let this1 = this\<lparr>tabs := (tabs this)[tabIndex := tabs this ! tabIndex ++\<^sub>f newConfig]\<rparr>
                in case populateTabContent this1 (nodes this1 ! panel) (tabs this1 ! tabIndex) of
                     Inl e \<Rightarrow> Inl (e, this1)
                   | Inr panel' \<Rightarrow>
                       Inr (dispatchCustomEvent ''tabContentUpdated''
                              (Obj (fmap_of_list [(''tabId'', tabId), (''newConfig'', Obj newConfig)]))
                              (this1\<lparr>nodes := (nodes this1)[panel := panel']\<rparr>)))))"

definition updateTabContent :: "jsval \<Rightarrow> tabConfig \<Rightarrow> dashboard \<Rightarrow> dashboard" where
  "updateTabContent tabId newConfig this =
     (case updateTabContentBody tabId newConfig this of
        Inr this' \<Rightarrow> this'
      | Inl (err, this') \<Rightarrow> handleError err ''tab-update'' this')"

section \<open>Adding a tab\<close>

text \<open>
  \<open>parent.appendChild(child)\<close>. The store does not hold the tree of the document: the
  child is put last in the store, so it comes after every element present, as it does
  in the document among the children of its parent. The queries of this program select
  triggers and panels by their own classes and ids, so the place of a new trigger
  relative to the panels plays no part.
\<close>

definition appendChild :: "nat \<Rightarrow> element \<Rightarrow> dashboard \<Rightarrow> dashboard" where
  "appendChild parent child this = this\<lparr>nodes := nodes this @ [child\<lparr>attached := True\<rparr>]\<rparr>"

text \<open>
  \<open>bindEvents\<close> throws when the document has no tab button; otherwise it adds listeners
  (the listeners are the functions of this theory, called with the element they were bound
  to) and logs.
\<close>

definition bindEvents :: "dashboard \<Rightarrow> error + dashboard" where
  "bindEvents this =
     (if querySelectorAll ''tab-navigation__button'' this = []
      then Inl (Error ''No tab buttons found'') else Inr this)"

text \<open>The button that \<open>addTab\<close> creates for a descriptor.\<close>

definition newTabButton :: "tabConfig \<Rightarrow> element" where
  "newTabButton tabConfig =
     \<lparr>elemId = ''tab-'' @ toString (readProp tabConfig ''id''),
      classList = [''tab-navigation__button''],
      attributes = [(''type'', ''button''), (''role'', ''tab''), (''aria-selected'', ''false''),
                    (''aria-controls'', ''tab-panel-'' @ toString (readProp tabConfig ''id''))],
      innerHTML = ''Tab '' @ toString (readProp tabConfig ''id''),
      attached = False\<rparr>"

text \<open>
  The body of the \<open>try\<close> in \<open>addTab\<close>, for an argument that is an object. The descriptor
  joins the configuration and the button joins the navigation before the panel is
  rendered.
\<close>

definition addTabBody :: "tabConfig \<Rightarrow> dashboard \<Rightarrow> (error \<times> dashboard) + dashboard" where
  "addTabBody tabConfig this =
     (if \<not> truthy (readProp tabConfig ''id'') \<or> \<not> truthy (readProp tabConfig ''title'')
      then Inl (Error ''Tab configuration must include id and title'', this)
      else case List.find (\<lambda>tab. strictEq (readProp tab ''id'') (readProp tabConfig ''id'')) (tabs this) of
        Some existingTab \<Rightarrow>
          Inl (Error (''Tab with ID '' @ toString (readProp tabConfig ''id'') @ '' already exists''), this)
      | None \<Rightarrow>
          (let this1 = this\<lparr>tabs := tabs this @ [tabConfig]\<rparr>;
               this2 = (case querySelector ''tab-navigation'' this1 of
                          Some tabNav \<Rightarrow> appendChild tabNav (newTabButton tabConfig) this1
                        | None \<Rightarrow> this1);
               this3 = (case querySelector ''tab-content-container'' this2 of
                          Some container \<Rightarrow>
                            (case createTabPanel this2 tabConfig of
                               Inl e \<Rightarrow> Inl (e, this2)
                             | Inr tabPanel \<Rightarrow> Inr (appendChild container tabPanel this2))
                        | None \<Rightarrow> Inr this2)
           in case this3 of
                Inl thrown \<Rightarrow> Inl thrown
              | Inr this4 \<Rightarrow>
                  (case bindEvents this4 of
                     Inl e \<Rightarrow> Inl (e, this4)
                   | Inr this5 \<Rightarrow>
                       Inr (dispatchCustomEvent ''tabAdded''
                              (Obj (fmap_of_list [(''tabId'', readProp tabConfig ''id''),
                                                  (''tabConfig'', Obj tabConfig)])) this5))))"

definition addTab :: "tabConfig \<Rightarrow> dashboard \<Rightarrow> dashboard" where
  "addTab tabConfig this =
     (case addTabBody tabConfig this of
        Inr this' \<Rightarrow> this'
      | Inl (err, this') \<Rightarrow> handleError err ''tab-add'' this')"

section \<open>Keyboard and pointer on the tab triggers\<close>

text \<open>\<open>xs.indexOf(x)\<close> and \<open>xs[i]\<close>; an index out of range reads \<open>undefined\<close> (\<open>None\<close>).\<close>

definition indexOf :: "'a \<Rightarrow> 'a list \<Rightarrow> int" where
  "indexOf x xs = (case findIndex (\<lambda>y. y = x) xs of None \<Rightarrow> - 1 | Some i \<Rightarrow> int i)"

definition nthOpt :: "'a list \<Rightarrow> int \<Rightarrow> 'a option" where
  "nthOpt xs i = (if 0 \<le> i \<and> i < int (length xs) then Some (xs ! nat i) else None)"

text \<open>\<open>tabButtons[targetIndex].focus()\<close>: calling \<open>focus\<close> on \<open>undefined\<close> throws.\<close>

definition focusAt :: "nat list \<Rightarrow> int \<Rightarrow> dashboard \<Rightarrow> error + dashboard" where
  "focusAt tabButtons targetIndex this =
     (case nthOpt tabButtons targetIndex of
        None \<Rightarrow> Inl (TypeError ''Cannot read properties of undefined (reading 'focus')'')
      | Some b \<Rightarrow> Inr (focus b this))"

text \<open>
  \<open>handleTabKeyNavigation(e, currentButton)\<close>, by \<open>e.key\<close>. The method has no \<open>try\<close>: an
  exception leaves it. \<open>e.preventDefault()\<close> touches the event only and is left out.
\<close>

definition handleTabKeyNavigation :: "string \<Rightarrow> nat \<Rightarrow> dashboard \<Rightarrow> error + dashboard" where
  "handleTabKeyNavigation key currentButton this =
     (let tabButtons = querySelectorAll ''tab-navigation__button'' this;
          currentIndex = indexOf currentButton tabButtons
      in if key = ''ArrowLeft''
         then focusAt tabButtons
                (if currentIndex > 0 then currentIndex - 1 else int (length tabButtons) - 1) this
         else if key = ''ArrowRight''
         then focusAt tabButtons
                (if currentIndex < int (length tabButtons) - 1 then currentIndex + 1 else 0) this
         else if key = ''Home'' then focusAt tabButtons 0 this
         else if key = ''End'' then focusAt tabButtons (int (length tabButtons) - 1) this
         else if key = ''Enter'' \<or> key = '' ''
         then (let tabId = extractTabId (elemId (nodes this ! currentButton))
               in if truthy tabId then Inr (activateTab tabId this) else Inr this)
         else Inr this)"

text \<open>The click listener that \<open>bindEvents\<close> puts on every tab button.\<close>

definition tabButtonClick :: "nat \<Rightarrow> dashboard \<Rightarrow> dashboard" where
  "tabButtonClick button this =
     (let tabId = extractTabId (elemId (nodes this ! button))
      in if truthy tabId then activateTab tabId this else this)"

section \<open>Overlay surfaces\<close>

text \<open>
  The three close methods. The \<open>timestamp\<close> in the detail of their events comes from the
  clock and is left out.
\<close>

definition closeNotificationModal :: "dashboard \<Rightarrow> dashboard" where
  "closeNotificationModal this =
     (case getElementById ''notification-modal'' this of
        None \<Rightarrow> this
      | Some notificationModal \<Rightarrow>
          (let this1 = updateNode notificationModal
                         (\<lambda>m. setAttribute ''aria-hidden'' ''true''
                                (classRemove ''notification-modal--active'' m)) this;
               this2 = (case getElementById ''notification-btn'' this1 of
                          Some notificationBtn \<Rightarrow> focus notificationBtn this1
                        | None \<Rightarrow> this1)
           in dispatchCustomEvent ''notificationModalClosed'' (Obj fmempty) this2))"

definition closeUserDropdown :: "dashboard \<Rightarrow> dashboard" where
  "closeUserDropdown this =
     (case (querySelector ''user-dropdown'' this, getElementById ''user-dropdown-menu'' this) of
        (Some userDropdown, Some dropdownMenu) \<Rightarrow>
          (let this1 = updateNode userDropdown (classRemove ''user-dropdown--active'') this;
               this2 = updateNode dropdownMenu (setAttribute ''aria-hidden'' ''true'') this1;
               this3 = (case getElementById ''user-dropdown-trigger'' this2 of
                          Some dropdownTrigger \<Rightarrow> focus dropdownTrigger this2
                        | None \<Rightarrow> this2)
           in dispatchCustomEvent ''userDropdownClosed'' (Obj fmempty) this3)
      | _ \<Rightarrow> this)"

definition closeEmailModal :: "dashboard \<Rightarrow> dashboard" where
  "closeEmailModal this =
     (case getElementById ''email-modal'' this of
        None \<Rightarrow> this
      | Some emailModal \<Rightarrow>
          (let this1 = updateNode emailModal
                         (\<lambda>m. setAttribute ''aria-hidden'' ''true''
                                (classRemove ''email-modal--active'' m)) this;
               this2 = this1\<lparr>bodyOverflow := []\<rparr>;
               this3 = (case getElementById ''email-notifications-btn'' this2 of
                          Some emailButton \<Rightarrow> focus emailButton this2
                        | None \<Rightarrow> this2)
           in dispatchCustomEvent ''emailModalClosed'' (Obj fmempty) this3))"

section \<open>The timer button\<close>







section \<open>An example page\<close>

definition mkElement :: "string \<Rightarrow> string list \<Rightarrow> (string \<times> string) list \<Rightarrow> element" where
  "mkElement i cs as = \<lparr>elemId = i, classList = cs, attributes = as, innerHTML = [], attached = True\<rparr>"

definition mkButton :: "int \<Rightarrow> bool \<Rightarrow> element" where
  "mkButton n act =
     \<lparr>elemId = ''tab-'' @ numToString n,
      classList = (if act then [''tab-navigation__button'', ''tab-navigation__button--active'']
                   else [''tab-navigation__button'']),
      attributes = [(''aria-selected'', if act then ''true'' else ''false'')],
      innerHTML = ''Tab '' @ numToString n,
      attached = True\<rparr>"

definition mkPanel :: "int \<Rightarrow> bool \<Rightarrow> element" where
  "mkPanel n act =
     \<lparr>elemId = ''tab-panel-'' @ numToString n,
      classList = (if act then [''tab-content'', ''tab-content--active''] else [''tab-content'']),
      attributes = [(''role'', ''tabpanel'')],
      innerHTML = [],
      attached = True\<rparr>"

definition mkTab :: "int \<Rightarrow> string \<Rightarrow> string \<Rightarrow> string \<Rightarrow> string \<Rightarrow> tabConfig" where
  "mkTab n t cc cn at =
     fmap_of_list [(''id'', Num n), (''title'', Str t),
                   (''country'', Obj (fmap_of_list [(''code'', Str cc), (''name'', Str cn)])),
                   (''addressType'', Str at)]"

definition plainCell :: cell where
  "plainCell = \<lparr>heading = ''Lorem Ipsum'', cvalue = ''Simply dummy text'',
                isCountry = False, isAddressType = False\<rparr>"

text \<open>
  The page after start-up, with the constructor's configuration: six tabs and the two
  row templates, the navigation with a trigger for each tab, the container with a panel
  for each tab, tab 1 active. The markup inside the
  panels plays no part in activation, removal or navigation and is left empty here.
\<close>

definition examplePage :: dashboard where
  "examplePage =
     \<lparr>tabs = [mkTab 1 ''Lorem Ipsum'' ''gb'' ''United Kingdom'' ''Residential'',
              mkTab 2 ''Tab 2 Content'' ''us'' ''United States'' ''Commercial'',
              mkTab 3 ''Tab 3 Content'' ''ca'' ''Canada'' ''Industrial'',
              mkTab 4 ''Tab 4 Content'' ''au'' ''Australia'' ''Mixed'',
              mkTab 5 ''Tab 5 Content'' ''de'' ''Germany'' ''Rural'',
              mkTab 6 ''Tab 6 Content'' ''fr'' ''France'' ''Urban''],
      contentRows =
        [[plainCell, \<lparr>heading = ''Dummy text'', cvalue = ''-'', isCountry = False, isAddressType = False\<rparr>],
         [plainCell, plainCell],
         [plainCell, plainCell],
         [plainCell, plainCell,
          \<lparr>heading = ''Country'', cvalue = [], isCountry = True, isAddressType = False\<rparr>],
         [plainCell, plainCell, plainCell]],
      sectionRows =
        [[plainCell,
          \<lparr>heading = ''Address Type'', cvalue = [], isCountry = False, isAddressType = True\<rparr>,
          plainCell],
         [plainCell, plainCell, plainCell],
         [plainCell, plainCell, plainCell]],
      nodes = [mkElement [] [''tab-navigation''] [(''role'', ''tablist'')],
               mkButton 1 True, mkButton 2 False, mkButton 3 False,
               mkButton 4 False, mkButton 5 False, mkButton 6 False,
               mkElement [] [''tab-content-container''] [],
               mkPanel 1 True, mkPanel 2 False, mkPanel 3 False,
               mkPanel 4 False, mkPanel 5 False, mkPanel 6 False],
      activeElement = None,
      bodyOverflow = [],
      dispatched = []\<rparr>"

definition bareTab :: tabConfig where
  "bareTab = fmap_of_list [(''id'', Num 7), (''title'', Str ''X''), (''attributes'', Obj fmempty)]"

text \<open>
  The overlay elements of a page on which every surface is closed: the notification
  button and panel, the account menu with its trigger and its menu, the settings
  button and dialog. Nothing has the focus.
\<close>

definition overlayPage :: dashboard where
  "overlayPage =
     \<lparr>tabs = [], contentRows = [], sectionRows = [],
      nodes = [mkElement ''notification-btn'' [''header-icon-btn''] [],
               mkElement ''notification-modal'' [''notification-modal''] [(''aria-hidden'', ''true'')],
               mkElement [] [''user-dropdown''] [],
               mkElement ''user-dropdown-trigger'' [''user-dropdown__trigger''] [],
               mkElement ''user-dropdown-menu'' [''user-dropdown__menu''] [(''aria-hidden'', ''true'')],
               mkElement ''email-notifications-btn'' [''header-icon-btn''] [],
               mkElement ''email-modal'' [''email-modal''] [(''aria-hidden'', ''true'')]],
      activeElement = None,
      bodyOverflow = [],
      dispatched = []\<rparr>"

section \<open>Facts about the embedding\<close>

subsection \<open>Printing and parsing tab ids\<close>

lemma digit_cases: "d < 10 \<Longrightarrow> d \<in> {0, 1, 2, 3, 4, 5, 6, 7, 8, 9::nat}"
  by auto

lemma digitVal_digitChar: "d < 10 \<Longrightarrow> digitVal (digitChar d) = d"
  by (drule digit_cases) (auto simp: digitChar_def digitVal_def decimalDigits_def)

lemma isDigit_digitChar: "d < 10 \<Longrightarrow> isDigit (digitChar d)"
  by (drule digit_cases) (auto simp: digitChar_def isDigit_def decimalDigits_def)

lemma natToString_digits: "c \<in> set (natToString n) \<Longrightarrow> isDigit c"
proof (induction n arbitrary: c rule: natToString.induct)
  case (1 n)
  show ?case
  proof (cases "n < 10")
    case True
    with "1.prems" show ?thesis by (subst (asm) natToString.simps) (simp add: isDigit_digitChar)
  next
    case False
    with "1.prems" "1.IH" show ?thesis
      by (subst (asm) natToString.simps) (auto simp: isDigit_digitChar)
  qed
qed

lemma natToString_nonempty: "natToString n \<noteq> []"
  by (subst natToString.simps) simp

lemma parse_natToString: "foldl (\<lambda>acc c. 10 * acc + digitVal c) 0 (natToString n) = n"
proof (induction n rule: natToString.induct)
  case (1 n)
  show ?case
  proof (cases "n < 10")
    case True
    then show ?thesis by (subst natToString.simps) (simp add: digitVal_digitChar)
  next
    case False
    then have "natToString n = natToString (n div 10) @ [digitChar (n mod 10)]"
      by (subst natToString.simps) simp
    with False "1.IH" show ?thesis by (simp add: digitVal_digitChar)
  qed
qed

lemma extractTabId_suffix:
  assumes "takeWhile isDigit (rev p) = []"
  shows "extractTabId (p @ natToString k) = Num (int k)"
proof -
  have "takeWhile isDigit (rev (natToString k) @ rev p)
      = rev (natToString k) @ takeWhile isDigit (rev p)"
    by (rule takeWhile_append2) (simp add: natToString_digits)
  with assms show ?thesis
    by (simp add: extractTabId_def parseInt_def natToString_nonempty parse_natToString)
qed

lemma extractTabId_button: "0 \<le> n \<Longrightarrow> extractTabId (''tab-'' @ toString (Num n)) = Num n"
  using extractTabId_suffix [of "''tab-''" "nat n"] by (simp add: numToString_def isDigit_def decimalDigits_def)

lemma extractTabId_panel: "0 \<le> n \<Longrightarrow> extractTabId (''tab-panel-'' @ toString (Num n)) = Num n"
  using extractTabId_suffix [of "''tab-panel-''" "nat n"] by (simp add: numToString_def isDigit_def decimalDigits_def)

subsection \<open>Queries on the document\<close>

lemma findIndex_Some: "findIndex P xs = Some i \<Longrightarrow> i < length xs \<and> P (xs ! i)"
  by (induction xs arbitrary: i) (auto split: if_splits)

lemma findIndex_update_other:
  "findIndex Q xs \<noteq> Some b \<Longrightarrow> \<not> Q y \<Longrightarrow> findIndex Q (xs[b := y]) = findIndex Q xs"
proof (induction xs arbitrary: b)
  case Nil
  then show ?case by simp
next
  case (Cons x xs)
  show ?case
  proof (cases b)
    case 0
    with Cons.prems show ?thesis by (auto split: if_splits)
  next
    case (Suc b')
    with Cons.prems Cons.IH [of b'] show ?thesis by (auto split: if_splits)
  qed
qed

lemma lookup_not_active:
  assumes "getElementById i this = Some k" and "getActiveTabId this \<noteq> extractTabId i"
  shows "querySelector ''tab-navigation__button--active'' this \<noteq> Some k"
proof
  assume q: "querySelector ''tab-navigation__button--active'' this = Some k"
  from assms(1) have "elemId (nodes this ! k) = i"
    using findIndex_Some [of "\<lambda>e. attached e \<and> elemId e = i" "nodes this" k]
    by (simp add: getElementById_def)
  with q assms(2) show False by (simp add: getActiveTabId_def)
qed

lemma querySelector_removeNode:
  assumes "querySelector c this \<noteq> Some b"
  shows "querySelector c (removeNode b this) = querySelector c this"
  using assms findIndex_update_other
    [of "\<lambda>e. attached e \<and> classContains c e" "nodes this" b "(nodes this ! b)\<lparr>attached := False\<rparr>"]
  by (simp add: querySelector_def removeNode_def)

lemma getActiveTabId_removeNode:
  assumes "querySelector ''tab-navigation__button--active'' this \<noteq> Some b"
  shows "getActiveTabId (removeNode b this) = getActiveTabId this"
proof -
  have q: "querySelector ''tab-navigation__button--active'' (removeNode b this)
         = querySelector ''tab-navigation__button--active'' this"
    using assms by (rule querySelector_removeNode)
  show ?thesis
  proof (cases "querySelector ''tab-navigation__button--active'' this")
    case None
    with q show ?thesis by (simp add: getActiveTabId_def)
  next
    case (Some a)
    with assms have "a \<noteq> b" by simp
    then have "elemId (nodes (removeNode b this) ! a) = elemId (nodes this ! a)"
      by (simp add: removeNode_def)
    with q Some show ?thesis by (simp add: getActiveTabId_def)
  qed
qed

lemma removeNode_classes:
  "i < length (nodes this) \<Longrightarrow>
     classList (nodes (removeNode b this) ! i) = classList (nodes this ! i) \<and>
     attributes (nodes (removeNode b this) ! i) = attributes (nodes this ! i) \<and>
     elemId (nodes (removeNode b this) ! i) = elemId (nodes this ! i)"
  by (cases "i = b") (simp_all add: removeNode_def)

lemma getActiveTabId_nodes: "nodes s = nodes s' \<Longrightarrow> getActiveTabId s = getActiveTabId s'"
  by (simp add: getActiveTabId_def querySelector_def cong: option.case_cong)

lemma nodes_dispatchCustomEvent: "nodes (dispatchCustomEvent name d s) = nodes s"
  by (simp add: dispatchCustomEvent_def)

lemma dispatched_dispatchCustomEvent:
  "dispatched (dispatchCustomEvent name d s) = dispatched s @ [CustomEvent name d]"
  by (simp add: dispatchCustomEvent_def)

lemma getActiveTabId_dispatchCustomEvent:
  "getActiveTabId (dispatchCustomEvent name d s) = getActiveTabId s"
  by (rule getActiveTabId_nodes) (rule nodes_dispatchCustomEvent)

lemma removeTabBody_no_reactivation:
  assumes "\<not> length (tabs this) \<le> 1"
    and "findIndex (\<lambda>tab. strictEq (readProp tab ''id'') tabId) (tabs this) = Some tabIndex"
    and "this1 = this\<lparr>tabs := take tabIndex (tabs this) @ drop (Suc tabIndex) (tabs this)\<rparr>"
    and "this2 = (case getElementById (''tab-'' @ toString tabId) this1 of
                    Some b \<Rightarrow> removeNode b this1 | None \<Rightarrow> this1)"
    and "this3 = (case getElementById (''tab-panel-'' @ toString tabId) this1 of
                    Some p \<Rightarrow> removeNode p this2 | None \<Rightarrow> this2)"
    and "\<not> strictEq (getActiveTabId this3) tabId"
  shows "removeTabBody tabId this =
           Inr (dispatchCustomEvent ''tabRemoved'' (Obj (fmap_of_list [(''tabId'', tabId)])) this3)"
proof -
  have "\<not> strictEq (getActiveTabId this3) tabId" by fact
  then show ?thesis
    unfolding assms(3,4,5) removeTabBody_def Let_def using assms(1,2) by simp
qed

subsection \<open>Failed activation\<close>

text \<open>
  Claim C1. For a tab id that resolves to no trigger and no panel, \<open>activateTab\<close> reports
  a \<open>dashboardError\<close> with context \<open>tab-activation\<close> and throws nothing; the claim adds that
  the active selection stays as it was. On the example page tab 1 is active; after
  \<open>activateTab(99)\<close> the error is reported, but the markers were cleared before the
  lookup failed: no trigger and no panel is active any more and \<open>getActiveTabId\<close> is
  \<open>null\<close>.
\<close>

theorem activateTab_unknown_id_clears_selection:
  "getActiveTabId examplePage = Num 1 \<and>
   activeMarkers examplePage = ([1], [8]) \<and>
   getActiveTabId (activateTab (Num 99) examplePage) = Null \<and>
   activeMarkers (activateTab (Num 99) examplePage) = ([], []) \<and>
   dispatched (activateTab (Num 99) examplePage) =
     [CustomEvent ''dashboardError''
        (Obj (fmap_of_list [(''message'', Str ''Tab elements not found for ID: 99''),
                            (''context'', Str ''tab-activation'')]))]"
  by code_simp

text \<open>
  The same in every state: when the id resolves to no trigger or to no panel, the error
  is reported and the configuration is untouched, but afterwards no tab trigger and no
  tab panel of the document carries its active marker.
\<close>

lemma tabs_handleError: "tabs (handleError err ctx s) = tabs s"
  by (simp add: handleError_def dispatchCustomEvent_def)

lemma findIndex_map: "findIndex P (map g xs) = findIndex (\<lambda>x. P (g x)) xs"
  by (induction xs) simp_all

lemma getElementById_forEachSelected:
  assumes "\<And>e. elemId (f e) = elemId e" and "\<And>e. attached (f e) = attached e"
  shows "getElementById i (forEachSelected c f this) = getElementById i this"
proof -
  have "(\<lambda>e. attached (if attached e \<and> classContains c e then f e else e) \<and>
             elemId (if attached e \<and> classContains c e then f e else e) = i)
      = (\<lambda>e. attached e \<and> elemId e = i)"
    using assms by auto
  then show ?thesis
    by (simp add: getElementById_def forEachSelected_def findIndex_map)
qed

lemma activateTab_failure:
  assumes "getElementById (''tab-'' @ toString tabId) this = None \<or>
           getElementById (''tab-panel-'' @ toString tabId) this = None"
  shows "dispatched (activateTab tabId this) =
           dispatched this @
           [CustomEvent ''dashboardError''
              (Obj (fmap_of_list
                 [(''message'', Str (''Tab elements not found for ID: '' @ toString tabId)),
                  (''context'', Str ''tab-activation'')]))]"
    and "tabs (activateTab tabId this) = tabs this"
    and "\<forall>e \<in> set (nodes (activateTab tabId this)).
           attached e \<and> classContains ''tab-navigation__button'' e \<longrightarrow>
           \<not> classContains ''tab-navigation__button--active'' e"
    and "\<forall>e \<in> set (nodes (activateTab tabId this)).
           attached e \<and> classContains ''tab-content'' e \<longrightarrow>
           \<not> classContains ''tab-content--active'' e"
proof -
  define this1 where "this1 = forEachSelected ''tab-navigation__button''
                    (\<lambda>btn. setAttribute ''aria-selected'' ''false''
                             (classRemove ''tab-navigation__button--active'' btn)) this"
  define this2 where "this2 = forEachSelected ''tab-content'' (classRemove ''tab-content--active'') this1"
  have g: "getElementById i this2 = getElementById i this" for i
    unfolding this2_def this1_def
    by (simp add: getElementById_forEachSelected setAttribute_def classRemove_def)
  from assms have "activateTabBody tabId this =
      Inl (Error (''Tab elements not found for ID: '' @ toString tabId), this2)"
    unfolding activateTabBody_def Let_def this1_def [symmetric] this2_def [symmetric] g
    by (auto split: option.splits)
  then have a: "activateTab tabId this =
      handleError (Error (''Tab elements not found for ID: '' @ toString tabId)) ''tab-activation'' this2"
    by (simp add: activateTab_def)
  have d2: "dispatched this2 = dispatched this" and t2: "tabs this2 = tabs this"
    by (simp_all add: this2_def this1_def forEachSelected_def)
  show "dispatched (activateTab tabId this) =
           dispatched this @
           [CustomEvent ''dashboardError''
              (Obj (fmap_of_list
                 [(''message'', Str (''Tab elements not found for ID: '' @ toString tabId)),
                  (''context'', Str ''tab-activation'')]))]"
    by (simp add: a handleError_def dispatchCustomEvent_def d2)
  show "tabs (activateTab tabId this) = tabs this"
    by (simp add: a tabs_handleError t2)
  have n: "nodes (activateTab tabId this) = nodes this2"
    by (simp add: a handleError_def dispatchCustomEvent_def)
  show "\<forall>e \<in> set (nodes (activateTab tabId this)).
           attached e \<and> classContains ''tab-navigation__button'' e \<longrightarrow>
           \<not> classContains ''tab-navigation__button--active'' e"
    unfolding n this2_def this1_def
    by (auto simp: forEachSelected_def classContains_def classRemove_def setAttribute_def
             split: if_splits)
  show "\<forall>e \<in> set (nodes (activateTab tabId this)).
           attached e \<and> classContains ''tab-content'' e \<longrightarrow>
           \<not> classContains ''tab-content--active'' e"
    unfolding n this2_def this1_def
    by (auto simp: forEachSelected_def classContains_def classRemove_def setAttribute_def
             split: if_splits)
qed

subsection \<open>Removing a tab\<close>

text \<open>
  Claim C3. Removing the only tab is refused and changes nothing but the error log
  (\<open>removeTab_last_tab_refused\<close> below); removing the active tab while others remain
  should leave the first remaining tab active. On the example page tab 1 is active;
  \<open>removeTab(1)\<close> succeeds (\<open>tabRemoved\<close> is dispatched, tabs 2 to 6 remain), but the
  button of tab 1 has left the document when \<open>getActiveTabId\<close> is asked, so no tab is
  activated: \<open>getActiveTabId\<close> is \<open>null\<close> and no marker is set.
\<close>

theorem removeTab_active_leaves_no_selection:
  "getActiveTabId examplePage = Num 1 \<and>
   map (\<lambda>tab. readProp tab ''id'') (tabs (removeTab (Num 1) examplePage)) = [Num 2, Num 3, Num 4, Num 5, Num 6] \<and>
   dispatched (removeTab (Num 1) examplePage) =
     [CustomEvent ''tabRemoved'' (Obj (fmap_of_list [(''tabId'', Num 1)]))] \<and>
   getActiveTabId (removeTab (Num 1) examplePage) = Null \<and>
   activeMarkers (removeTab (Num 1) examplePage) = ([], [])"
  by code_simp

lemma removeTab_last_tab_refused:
  "length (tabs this) \<le> 1 \<Longrightarrow>
     removeTab tabId this =
       handleError (Error ''Cannot remove the last remaining tab'') ''tab-remove'' this"
  by (simp add: removeTab_def removeTabBody_def)

text \<open>
  The same in every state in which the button of the removed tab is the only element
  that may carry the active marker: after a successful \<open>removeTab\<close> no tab is active.
\<close>

lemma findIndex_None: "(\<And>x. x \<in> set xs \<Longrightarrow> \<not> P x) \<Longrightarrow> findIndex P xs = None"
  by (induction xs) simp_all

lemma getActiveTabId_no_marker:
  assumes "\<And>i. i < length (nodes s) \<Longrightarrow>
             \<not> (attached (nodes s ! i) \<and> classContains ''tab-navigation__button--active'' (nodes s ! i))"
  shows "getActiveTabId s = Null"
proof -
  have "findIndex (\<lambda>e. attached e \<and> classContains ''tab-navigation__button--active'' e) (nodes s) = None"
    by (rule findIndex_None) (metis assms in_set_conv_nth)
  then show ?thesis by (simp add: getActiveTabId_def querySelector_def)
qed

lemma removeTab_active_loses_selection:
  assumes ok: "removeTabBody (Num n) this = Inr this'"
    and button: "getElementById (''tab-'' @ toString (Num n)) this = Some b"
    and only: "\<And>i. i < length (nodes this) \<Longrightarrow> i \<noteq> b \<Longrightarrow>
                 \<not> (attached (nodes this ! i) \<and>
                    classContains ''tab-navigation__button--active'' (nodes this ! i))"
  shows "getActiveTabId this' = Null"
proof -
  from ok obtain tabIndex where
    idx: "findIndex (\<lambda>tab. strictEq (readProp tab ''id'') (Num n)) (tabs this) = Some tabIndex"
    by (auto simp: removeTabBody_def split: if_splits option.splits)
  from ok have gt: "\<not> length (tabs this) \<le> 1"
    by (auto simp: removeTabBody_def split: if_splits)
  define this1 where "this1 = this\<lparr>tabs := take tabIndex (tabs this) @ drop (Suc tabIndex) (tabs this)\<rparr>"
  define this2 where "this2 = (case getElementById (''tab-'' @ toString (Num n)) this1 of
                                 Some b \<Rightarrow> removeNode b this1 | None \<Rightarrow> this1)"
  define this3 where "this3 = (case getElementById (''tab-panel-'' @ toString (Num n)) this1 of
                                 Some p \<Rightarrow> removeNode p this2 | None \<Rightarrow> this2)"
  have b1: "getElementById (''tab-'' @ toString (Num n)) this1 = Some b"
    using button by (simp add: this1_def getElementById_def)
  have n2: "nodes this2 = (nodes this)[b := (nodes this ! b)\<lparr>attached := False\<rparr>]"
    unfolding this2_def b1 by (simp add: removeNode_def this1_def)
  have no2: "\<not> (attached (nodes this2 ! i) \<and>
                classContains ''tab-navigation__button--active'' (nodes this2 ! i))"
    if "i < length (nodes this2)" for i
    using that only [of i] by (cases "i = b") (simp_all add: n2)
  have no3: "\<not> (attached (nodes this3 ! i) \<and>
                classContains ''tab-navigation__button--active'' (nodes this3 ! i))"
    if "i < length (nodes this3)" for i
  proof (cases "getElementById (''tab-panel-'' @ toString (Num n)) this1")
    case None
    with that no2 [of i] show ?thesis by (simp add: this3_def)
  next
    case (Some p)
    with that no2 [of i] show ?thesis
      by (cases "i = p") (simp_all add: this3_def removeNode_def)
  qed
  have null: "getActiveTabId this3 = Null"
    by (rule getActiveTabId_no_marker) (rule no3)
  then have "\<not> strictEq (getActiveTabId this3) (Num n)" by (simp add: strictEq_def)
  with gt idx this1_def this2_def this3_def
  have "removeTabBody (Num n) this =
          Inr (dispatchCustomEvent ''tabRemoved'' (Obj (fmap_of_list [(''tabId'', Num n)])) this3)"
    by (rule removeTabBody_no_reactivation)
  with ok have "this' = dispatchCustomEvent ''tabRemoved'' (Obj (fmap_of_list [(''tabId'', Num n)])) this3"
    by simp
  then show ?thesis using null by (simp only: getActiveTabId_dispatchCustomEvent)
qed

text \<open>
  Claim C10. When \<open>removeTab\<close> succeeds for a tab id \<open>n\<close> (a non-negative integer) that is
  not the active one, \<open>getActiveTabId\<close> answers after the call what it answered before,
  the only event is \<open>tabRemoved\<close> (no activation took place), and no element's class list
  or attribute changed.
\<close>

theorem removeTab_inactive_keeps_selection:
  assumes ok: "removeTabBody (Num n) this = Inr this'"
    and n: "0 \<le> n"
    and inactive: "getActiveTabId this \<noteq> Num n"
  shows "getActiveTabId this' = getActiveTabId this \<and>
         dispatched this' = dispatched this @ [CustomEvent ''tabRemoved'' (Obj (fmap_of_list [(''tabId'', Num n)]))] \<and>
         length (nodes this') = length (nodes this) \<and>
         (\<forall>i<length (nodes this).
            classList (nodes this' ! i) = classList (nodes this ! i) \<and>
            attributes (nodes this' ! i) = attributes (nodes this ! i))"
proof -
  from ok obtain tabIndex where
    idx: "findIndex (\<lambda>tab. strictEq (readProp tab ''id'') (Num n)) (tabs this) = Some tabIndex"
    by (auto simp: removeTabBody_def split: if_splits option.splits)
  define this1 where "this1 = this\<lparr>tabs := take tabIndex (tabs this) @ drop (Suc tabIndex) (tabs this)\<rparr>"
  define button where "button = getElementById (''tab-'' @ toString (Num n)) this1"
  define panel where "panel = getElementById (''tab-panel-'' @ toString (Num n)) this1"
  define this2 where "this2 = (case button of Some b \<Rightarrow> removeNode b this1 | None \<Rightarrow> this1)"
  define this3 where "this3 = (case panel of Some p \<Rightarrow> removeNode p this2 | None \<Rightarrow> this2)"
  have act1: "getActiveTabId this1 = getActiveTabId this"
    by (rule getActiveTabId_nodes) (simp add: this1_def)
  have act2: "getActiveTabId this2 = getActiveTabId this1"
  proof (cases button)
    case None
    then show ?thesis by (simp add: this2_def)
  next
    case (Some b)
    then have "querySelector ''tab-navigation__button--active'' this1 \<noteq> Some b"
      using lookup_not_active [of "''tab-'' @ toString (Num n)" this1 b] inactive n act1
      by (simp only: button_def extractTabId_button) simp
    with Some show ?thesis by (simp add: this2_def getActiveTabId_removeNode)
  qed
  have q2: "querySelector ''tab-navigation__button--active'' this2
          = querySelector ''tab-navigation__button--active'' this1"
  proof (cases button)
    case None
    then show ?thesis by (simp add: this2_def)
  next
    case (Some b)
    then have "querySelector ''tab-navigation__button--active'' this1 \<noteq> Some b"
      using lookup_not_active [of "''tab-'' @ toString (Num n)" this1 b] inactive n act1
      by (simp only: button_def extractTabId_button) simp
    with Some show ?thesis by (simp add: this2_def querySelector_removeNode)
  qed
  have act3: "getActiveTabId this3 = getActiveTabId this2"
  proof (cases panel)
    case None
    then show ?thesis by (simp add: this3_def)
  next
    case (Some p)
    then have "querySelector ''tab-navigation__button--active'' this1 \<noteq> Some p"
      using lookup_not_active [of "''tab-panel-'' @ toString (Num n)" this1 p] inactive n act1
      by (simp only: panel_def extractTabId_panel) simp
    with q2 have "querySelector ''tab-navigation__button--active'' this2 \<noteq> Some p" by simp
    with Some show ?thesis by (simp add: this3_def getActiveTabId_removeNode)
  qed
  from act1 act2 act3 have act: "getActiveTabId this3 = getActiveTabId this" by simp
  with inactive have "\<not> strictEq (getActiveTabId this3) (Num n)" by (simp add: strictEq_def)
  note nonactive = this
  from ok have gt: "\<not> length (tabs this) \<le> 1"
    by (auto simp: removeTabBody_def split: if_splits)
  have "removeTabBody (Num n) this =
          Inr (dispatchCustomEvent ''tabRemoved'' (Obj (fmap_of_list [(''tabId'', Num n)])) this3)"
    using gt idx this1_def this2_def [unfolded button_def] this3_def [unfolded panel_def]
    by (rule removeTabBody_no_reactivation) (rule nonactive)
  with ok have this': "this' = dispatchCustomEvent ''tabRemoved'' (Obj (fmap_of_list [(''tabId'', Num n)])) this3"
    by simp
  have len2: "length (nodes this2) = length (nodes this)"
    by (cases button) (simp_all add: this2_def this1_def removeNode_def)
  have len3: "length (nodes this3) = length (nodes this)"
    using len2 by (cases panel) (simp_all add: this3_def removeNode_def)
  have ev: "dispatched this3 = dispatched this"
    by (cases button; cases panel) (simp_all add: this3_def this2_def this1_def removeNode_def)
  have cls: "classList (nodes this3 ! i) = classList (nodes this ! i) \<and>
             attributes (nodes this3 ! i) = attributes (nodes this ! i)"
    if "i < length (nodes this)" for i
  proof -
    have c2: "classList (nodes this2 ! i) = classList (nodes this ! i) \<and>
              attributes (nodes this2 ! i) = attributes (nodes this ! i)"
      using that removeNode_classes [of i this1] by (cases button) (simp_all add: this2_def this1_def)
    have "classList (nodes this3 ! i) = classList (nodes this2 ! i) \<and>
          attributes (nodes this3 ! i) = attributes (nodes this2 ! i)"
      using that len2 removeNode_classes [of i this2] by (cases panel) (simp_all add: this3_def)
    with c2 show ?thesis by simp
  qed
  show ?thesis
    using act ev len3 cls
    by (simp add: this' getActiveTabId_dispatchCustomEvent nodes_dispatchCustomEvent
          dispatched_dispatchCustomEvent)
qed

theorem removeTab_inactive_keeps_selection_witness:
  "removeTabBody (Num 2) examplePage = Inr (removeTab (Num 2) examplePage) \<and>
   getActiveTabId examplePage = Num 1 \<and>
   getActiveTabId (removeTab (Num 2) examplePage) = Num 1"
proof -
  have ok: "removeTabBody (Num 2) examplePage = Inr (removeTab (Num 2) examplePage)"
    by code_simp
  have a: "getActiveTabId examplePage = Num 1" by code_simp
  then have inactive: "getActiveTabId examplePage \<noteq> Num 2" by simp
  from removeTab_inactive_keeps_selection [OF ok _ inactive] ok a show ?thesis by simp
qed

subsection \<open>Rendering\<close>

text \<open>
  Claim C2. A descriptor whose attributes lack what a marker cell needs should render
  with the marker empty, and rendering should never abort. For the descriptor
  \<open>{id: 7, title: "X", attributes: {}}\<close> the country cell reads
  \<open>tabConfig.country.code\<close> of an undefined \<open>country\<close>: \<open>createTabPanel\<close> throws a TypeError
  and no panel is made. The address type cell does not throw, and shows the text
  \<open>undefined\<close>, not an empty value.
\<close>

theorem createTabPanel_without_country_throws:
  "createTabPanel examplePage bareTab =
     Inl (TypeError ''Cannot read properties of undefined (reading 'code')'') \<and>
   sectionItem bareTab ''Tab 7 - ''
     \<lparr>heading = ''Address Type'', cvalue = [], isCountry = False, isAddressType = True\<rparr> =
     itemHTML ''Tab 7 - Address Type'' ''undefined''"
  by code_simp

text \<open>
  The whole scenario on the example page: \<open>addTab\<close> of that descriptor puts it into the
  configuration and its button into the navigation, then fails to render and reports
  \<open>tab-add\<close>, leaving no panel; \<open>activateTab(7)\<close> then fails as well and leaves no tab
  active.
\<close>

lemma addTab_without_country:
  "map (\<lambda>tab. readProp tab ''id'') (tabs (addTab bareTab examplePage)) =
     [Num 1, Num 2, Num 3, Num 4, Num 5, Num 6, Num 7] \<and>
   getElementById ''tab-7'' (addTab bareTab examplePage) = Some 14 \<and>
   getElementById ''tab-panel-7'' (addTab bareTab examplePage) = None \<and>
   dispatched (addTab bareTab examplePage) =
     [CustomEvent ''dashboardError''
        (Obj (fmap_of_list
           [(''message'', Str ''Cannot read properties of undefined (reading 'code')''),
            (''context'', Str ''tab-add'')]))] \<and>
   getActiveTabId (addTab bareTab examplePage) = Num 1 \<and>
   getActiveTabId (activateTab (Num 7) (addTab bareTab examplePage)) = Null \<and>
   last (dispatched (activateTab (Num 7) (addTab bareTab examplePage))) =
     CustomEvent ''dashboardError''
        (Obj (fmap_of_list
           [(''message'', Str ''Tab elements not found for ID: 7''),
            (''context'', Str ''tab-activation'')]))"
  by code_simp

lemma contentItem_without_country:
  "isCountry item \<Longrightarrow> fmlookup tabConfig ''country'' = None \<Longrightarrow>
     contentItem tabConfig pfx item =
       Inl (TypeError ''Cannot read properties of undefined (reading 'code')'')"
  by (simp add: contentItem_def readProp_def)

text \<open>Rendering completes whenever the descriptor's \<open>country\<close> is neither \<open>undefined\<close> nor \<open>null\<close>.\<close>

lemma mapE_total:
  "(\<And>x. x \<in> set xs \<Longrightarrow> \<exists>y. f x = Inr y) \<Longrightarrow> \<exists>ys. mapE f xs = Inr ys"
proof (induction xs)
  case Nil
  then show ?case by simp
next
  case (Cons x xs)
  then obtain y ys where "f x = Inr y" and "mapE f xs = Inr ys"
    by (metis list.set_intros(1) list.set_intros(2))
  then show ?case by simp
qed

lemma getProp_defined:
  "v \<noteq> Undefined \<Longrightarrow> v \<noteq> Null \<Longrightarrow> \<exists>w. getProp v k = Inr w"
  by (cases v) simp_all

lemma contentItem_total:
  assumes "readProp tabConfig ''country'' \<noteq> Undefined" and "readProp tabConfig ''country'' \<noteq> Null"
  shows "\<exists>h. contentItem tabConfig pfx item = Inr h"
proof -
  from assms obtain code name where
    "getProp (readProp tabConfig ''country'') ''code'' = Inr code"
    "getProp (readProp tabConfig ''country'') ''name'' = Inr name"
    using getProp_defined by blast
  then show ?thesis by (simp add: contentItem_def)
qed

lemma generateContentRows_total:
  assumes "readProp tabConfig ''country'' \<noteq> Undefined" and "readProp tabConfig ''country'' \<noteq> Null"
  shows "\<exists>c. generateContentRows this tabConfig pfx = Inr c"
proof -
  define rowf where "rowf = (\<lambda>row. case mapE (contentItem tabConfig pfx) row of
               Inl e \<Rightarrow> Inl e
             | Inr columns \<Rightarrow>
                 (let emptyColumns = nat (max 0 (3 - int (length row)))
                  in Inr (contentRowHTML (concat columns)
                            (concat (replicate emptyColumns emptyColumnHTML)))))"
  have row: "\<exists>r. rowf row = Inr r" for row
  proof -
    have "\<exists>cols. mapE (contentItem tabConfig pfx) row = Inr cols"
      by (rule mapE_total) (rule contentItem_total [OF assms])
    then obtain cols where "mapE (contentItem tabConfig pfx) row = Inr cols" ..
    then show ?thesis by (simp add: rowf_def Let_def)
  qed
  have "\<exists>rows. mapE rowf (contentRows this) = Inr rows"
    by (rule mapE_total) (rule row)
  then obtain rows where "mapE rowf (contentRows this) = Inr rows" ..
  then show ?thesis by (simp add: generateContentRows_def rowf_def [symmetric])
qed

lemma populateTabContent_total:
  assumes "readProp tabConfig ''country'' \<noteq> Undefined" and "readProp tabConfig ''country'' \<noteq> Null"
  shows "\<exists>c. populateTabContent this panel tabConfig =
           Inr (panel\<lparr>innerHTML := panelHTML (toString (readProp tabConfig ''title'')) c
                  (tabPrefix tabConfig) (generateSectionRows this tabConfig (tabPrefix tabConfig))\<rparr>)"
  using generateContentRows_total [OF assms, of this "tabPrefix tabConfig"]
  by (auto simp: populateTabContent_def Let_def)

lemma panelHTML_heading: "prefix (''\<newline>'' @ headingHTML t) (panelHTML t c p s)"
  by (simp add: panelHTML_def)

lemma titles_differ:
  "\<not> prefix ((''Tab 2 - '' @ ''Tab 2 Content'') @ h1) (''Tab 2 Content'' @ rest)"
  by simp

lemma headingHTML_prefix:
  "prefix (''\<newline>'' @ headingHTML t) (panelHTML t' c p s) \<longleftrightarrow>
   prefix (t @ ''</h2>\<newline>'')
     (t' @ ''</h2>\<newline>'' @ drop (length (''\<newline>'' @ headingHTML t')) (panelHTML t' c p s))"
proof -
  define rest where "rest = drop (length (''\<newline>'' @ headingHTML t')) (panelHTML t' c p s)"
  have "panelHTML t' c p s = (''\<newline>'' @ headingHTML t') @ rest"
    using panelHTML_heading [of t' c p s] unfolding rest_def
    by (metis append_eq_conv_conj prefix_def)
  then have "prefix (''\<newline>'' @ headingHTML t) (panelHTML t' c p s) \<longleftrightarrow>
     prefix (''\<newline>'' @ headingHTML t) ((''\<newline>'' @ headingHTML t') @ rest)"
    by simp
  also have "\<dots> \<longleftrightarrow> prefix (t @ ''</h2>\<newline>'') (t' @ ''</h2>\<newline>'' @ rest)"
    unfolding headingHTML_def by (simp only: append_assoc same_prefix_prefix)
  finally show ?thesis unfolding rest_def .
qed


text \<open>
  Claim C4, as stated: the heading of the panel carries the tab's prefix for every tab but
  the first. The second tab of the example page has the prefix \<open>Tab 2 - \<close>; its panel
  begins with the heading \<open>Tab 2 Content\<close>, the bare title, and not with the prefixed title.
\<close>

theorem heading_prefix_counterexample:
  "tabPrefix (tabs examplePage ! 1) = ''Tab 2 - '' \<and>
   prefix (''\<newline>'' @ headingHTML ''Tab 2 Content'')
     (innerHTML (projr (populateTabContent examplePage (mkPanel 2 False) (tabs examplePage ! 1)))) \<and>
   \<not> prefix (''\<newline>'' @ headingHTML (''Tab 2 - '' @ ''Tab 2 Content''))
     (innerHTML (projr (populateTabContent examplePage (mkPanel 2 False) (tabs examplePage ! 1))))"
proof -
  have p: "tabPrefix (tabs examplePage ! 1) = ''Tab 2 - ''" by code_simp
  have t: "toString (readProp (tabs examplePage ! 1) ''title'') = ''Tab 2 Content''" by code_simp
  have c1: "readProp (tabs examplePage ! 1) ''country'' \<noteq> Undefined" by code_simp
  have c2: "readProp (tabs examplePage ! 1) ''country'' \<noteq> Null" by code_simp
  from populateTabContent_total [OF c1 c2, of examplePage "mkPanel 2 False"] obtain c where
    "populateTabContent examplePage (mkPanel 2 False) (tabs examplePage ! 1) =
       Inr ((mkPanel 2 False)\<lparr>innerHTML :=
              panelHTML (toString (readProp (tabs examplePage ! 1) ''title'')) c
                (tabPrefix (tabs examplePage ! 1))
                (generateSectionRows examplePage (tabs examplePage ! 1)
                   (tabPrefix (tabs examplePage ! 1)))\<rparr>)" ..
  then have inner:
    "innerHTML (projr (populateTabContent examplePage (mkPanel 2 False) (tabs examplePage ! 1))) =
       panelHTML ''Tab 2 Content'' c ''Tab 2 - ''
         (generateSectionRows examplePage (tabs examplePage ! 1) ''Tab 2 - '')"
    unfolding p t by simp
  have yes: "prefix (''\<newline>'' @ headingHTML ''Tab 2 Content'')
               (panelHTML ''Tab 2 Content'' c ''Tab 2 - '' s)" for s
    by (rule panelHTML_heading)
  have no: "\<not> prefix (''\<newline>'' @ headingHTML (''Tab 2 - '' @ ''Tab 2 Content''))
               (panelHTML ''Tab 2 Content'' c ''Tab 2 - '' s)" for s
    unfolding headingHTML_prefix using titles_differ by blast
  show ?thesis
    unfolding inner using p yes no by blast
qed

text \<open>
  Claim C4, amended. Whenever a panel renders, its markup begins with the heading that
  is the descriptor's title as it stands, for every tab; the prefix is put on the section
  title (and on the cell headings). The prefix is empty for the tab whose id is 1 and
  \<open>Tab n - \<close> for a tab with another number \<open>n\<close> as id, whatever its place in the
  configuration.
\<close>

theorem populateTabContent_heading:
  assumes "populateTabContent this panel tabConfig = Inr panel'"
  shows "prefix (''\<newline>'' @ headingHTML (toString (readProp tabConfig ''title''))) (innerHTML panel') \<and>
         (\<exists>before after. innerHTML panel' =
             before @ sectionTitleHTML (tabPrefix tabConfig @ ''Lorem Ipsum'') @ after) \<and>
         (readProp tabConfig ''id'' = Num 1 \<longrightarrow> tabPrefix tabConfig = []) \<and>
         (\<forall>n. readProp tabConfig ''id'' = Num n \<and> n \<noteq> 1 \<longrightarrow>
              tabPrefix tabConfig = ''Tab '' @ numToString n @ '' - '')"
proof -
  from assms obtain c where
    inner: "innerHTML panel' = panelHTML (toString (readProp tabConfig ''title'')) c
              (tabPrefix tabConfig) (generateSectionRows this tabConfig (tabPrefix tabConfig))"
    by (auto simp: populateTabContent_def Let_def split: sum.splits)
  have "\<exists>before after. panelHTML t c p s = before @ sectionTitleHTML (p @ ''Lorem Ipsum'') @ after"
    for t c p s
    unfolding panelHTML_def by (metis append_assoc)
  with inner panelHTML_heading show ?thesis
    by (simp add: tabPrefix_def strictEq_def)
qed

theorem populateTabContent_heading_witness:
  "populateTabContent examplePage (mkPanel 3 False) (tabs examplePage ! 2) =
     Inr (projr (populateTabContent examplePage (mkPanel 3 False) (tabs examplePage ! 2))) \<and>
   prefix (''\<newline>'' @ headingHTML (toString (readProp (tabs examplePage ! 2) ''title'')))
     (innerHTML (projr (populateTabContent examplePage (mkPanel 3 False) (tabs examplePage ! 2))))"
proof -
  have ok: "populateTabContent examplePage (mkPanel 3 False) (tabs examplePage ! 2) =
     Inr (projr (populateTabContent examplePage (mkPanel 3 False) (tabs examplePage ! 2)))"
    by code_simp
  from populateTabContent_heading [OF ok] ok show ?thesis by blast
qed

text \<open>
  Claim C6. The markup that \<open>populateTabContent\<close> assigns is a function of the descriptor
  and of the two row templates alone: in two states of the dashboard that agree on the
  templates, and for any two panels, rendering a descriptor gives the same markup (or
  the same exception); and rendering again into the panel just rendered changes nothing.
\<close>

theorem populateTabContent_deterministic:
  assumes "contentRows this = contentRows this'" and "sectionRows this = sectionRows this'"
  shows "map_sum id innerHTML (populateTabContent this panel tabConfig) =
           map_sum id innerHTML (populateTabContent this' panel' tabConfig) \<and>
         (\<forall>p1. populateTabContent this panel tabConfig = Inr p1 \<longrightarrow>
                populateTabContent this' p1 tabConfig = Inr p1)"
proof -
  have c: "generateContentRows this tabConfig pfx = generateContentRows this' tabConfig pfx" for pfx
    using assms(1) by (simp add: generateContentRows_def)
  have s: "generateSectionRows this tabConfig pfx = generateSectionRows this' tabConfig pfx" for pfx
    using assms(2) by (simp add: generateSectionRows_def)
  show ?thesis
    by (auto simp: populateTabContent_def Let_def c s split: sum.splits)
qed

theorem populateTabContent_deterministic_witness:
  "contentRows examplePage = contentRows (activateTab (Num 2) examplePage) \<and>
   sectionRows examplePage = sectionRows (activateTab (Num 2) examplePage) \<and>
   map_sum id innerHTML (populateTabContent examplePage (mkPanel 2 False) (tabs examplePage ! 1)) =
     map_sum id innerHTML
       (populateTabContent (activateTab (Num 2) examplePage) (mkPanel 2 True) (tabs examplePage ! 1))"
proof -
  have c: "contentRows examplePage = contentRows (activateTab (Num 2) examplePage)"
    by code_simp
  have s: "sectionRows examplePage = sectionRows (activateTab (Num 2) examplePage)"
    by code_simp
  from populateTabContent_deterministic [OF c s] c s show ?thesis by blast
qed

subsection \<open>Closing a closed surface\<close>

text \<open>
  Claim C5, as stated: closing a surface that is closed changes no state, publishes no
  event and moves no focus. On the overlay page every surface is closed and nothing has
  the focus; \<open>closeNotificationModal\<close> and \<open>closeUserDropdown\<close> each publish their Closed
  event and give the focus to their trigger.
\<close>

theorem close_on_closed_surface_counterexample:
  "\<not> classContains ''notification-modal--active'' (nodes overlayPage ! 1) \<and>
   closeNotificationModal overlayPage \<noteq> overlayPage \<and>
   dispatched overlayPage = [] \<and>
   dispatched (closeNotificationModal overlayPage) =
     [CustomEvent ''notificationModalClosed'' (Obj fmempty)] \<and>
   activeElement overlayPage = None \<and>
   activeElement (closeNotificationModal overlayPage) = Some 0 \<and>
   \<not> classContains ''user-dropdown--active'' (nodes overlayPage ! 2) \<and>
   dispatched (closeUserDropdown overlayPage) = [CustomEvent ''userDropdownClosed'' (Obj fmempty)] \<and>
   activeElement (closeUserDropdown overlayPage) = Some 3"
  by code_simp

lemma findIndex_update_same:
  "k < length xs \<Longrightarrow> P y = P (xs ! k) \<Longrightarrow> findIndex P (xs[k := y]) = findIndex P xs"
proof (induction xs arbitrary: k)
  case Nil
  then show ?case by simp
next
  case (Cons x xs)
  then show ?case by (cases k) auto
qed

lemma getElementById_updateNode:
  assumes "elemId (f (nodes this ! k)) = elemId (nodes this ! k)"
    and "attached (f (nodes this ! k)) = attached (nodes this ! k)"
  shows "getElementById i (updateNode k f this) = getElementById i this"
proof (cases "k < length (nodes this)")
  case True
  with assms show ?thesis
    by (simp add: getElementById_def updateNode_def findIndex_update_same)
next
  case False
  then show ?thesis by (simp add: getElementById_def updateNode_def list_update_beyond)
qed

lemma classRemove_absent: "\<not> classContains c e \<Longrightarrow> classRemove c e = e"
  by (simp add: classContains_def classRemove_def)

lemma getElementById_bound: "getElementById i this = Some k \<Longrightarrow> k < length (nodes this)"
  using findIndex_Some [of _ "nodes this" k] by (simp add: getElementById_def)

lemma querySelector_bound: "querySelector c this = Some k \<Longrightarrow> k < length (nodes this)"
  using findIndex_Some [of _ "nodes this" k] by (simp add: querySelector_def)

lemma closeNotificationModal_closed:
  assumes m: "getElementById ''notification-modal'' this = Some m"
    and closed: "\<not> classContains ''notification-modal--active'' (nodes this ! m)"
  shows "closeNotificationModal this =
           dispatchCustomEvent ''notificationModalClosed'' (Obj fmempty)
             ((case getElementById ''notification-btn'' this of
                 Some b \<Rightarrow> focus b | None \<Rightarrow> (\<lambda>s. s))
                (updateNode m (setAttribute ''aria-hidden'' ''true'') this))"
proof -
  have u: "updateNode m (\<lambda>e. setAttribute ''aria-hidden'' ''true''
                              (classRemove ''notification-modal--active'' e)) this
         = updateNode m (setAttribute ''aria-hidden'' ''true'') this"
    using closed by (simp add: updateNode_def classRemove_absent)
  have g: "getElementById i (updateNode m (setAttribute ''aria-hidden'' ''true'') this)
         = getElementById i this" for i
    by (rule getElementById_updateNode) (simp_all add: setAttribute_def)
  show ?thesis
    using m by (simp add: closeNotificationModal_def Let_def u g split: option.splits)
qed


lemma closeUserDropdown_closed:
  assumes u: "querySelector ''user-dropdown'' this = Some u"
    and d: "getElementById ''user-dropdown-menu'' this = Some d"
    and closed: "\<not> classContains ''user-dropdown--active'' (nodes this ! u)"
  shows "closeUserDropdown this =
           dispatchCustomEvent ''userDropdownClosed'' (Obj fmempty)
             ((case getElementById ''user-dropdown-trigger'' this of
                 Some b \<Rightarrow> focus b | None \<Rightarrow> (\<lambda>s. s))
                (updateNode d (setAttribute ''aria-hidden'' ''true'') this))"
proof -
  have u': "updateNode u (classRemove ''user-dropdown--active'') this = this"
    using closed by (simp add: updateNode_def classRemove_absent)
  have g: "getElementById i (updateNode d (setAttribute ''aria-hidden'' ''true'') this)
         = getElementById i this" for i
    by (rule getElementById_updateNode) (simp_all add: setAttribute_def)
  show ?thesis
    using u d by (simp add: closeUserDropdown_def Let_def u' g split: option.splits)
qed

lemma closeEmailModal_closed:
  assumes m: "getElementById ''email-modal'' this = Some m"
    and closed: "\<not> classContains ''email-modal--active'' (nodes this ! m)"
  shows "closeEmailModal this =
           dispatchCustomEvent ''emailModalClosed'' (Obj fmempty)
             ((case getElementById ''email-notifications-btn'' this of
                 Some b \<Rightarrow> focus b | None \<Rightarrow> (\<lambda>s. s))
                ((updateNode m (setAttribute ''aria-hidden'' ''true'') this)\<lparr>bodyOverflow := []\<rparr>))"
proof -
  have u: "updateNode m (\<lambda>e. setAttribute ''aria-hidden'' ''true''
                              (classRemove ''email-modal--active'' e)) this
         = updateNode m (setAttribute ''aria-hidden'' ''true'') this"
    using closed by (simp add: updateNode_def classRemove_absent)
  have g: "getElementById i (updateNode m (setAttribute ''aria-hidden'' ''true'') this)
         = getElementById i this" for i
    by (rule getElementById_updateNode) (simp_all add: setAttribute_def)
  have g': "getElementById i (s\<lparr>bodyOverflow := v\<rparr>) = getElementById i s" for i s v
    by (simp add: getElementById_def)
  show ?thesis
    using m by (simp add: closeEmailModal_def Let_def u g g' split: option.splits)
qed

lemma setAttribute_classes:
  "map classList (nodes (updateNode k (setAttribute a v) s)) = map classList (nodes s)"
proof (cases "k < length (nodes s)")
  case True
  then show ?thesis
    by (simp add: updateNode_def setAttribute_def map_update list_update_same_conv)
next
  case False
  then show ?thesis by (simp add: updateNode_def list_update_beyond)
qed

lemma closed_surface_effects:
  assumes "s' = dispatchCustomEvent name detail
                  ((case trigger of Some b \<Rightarrow> focus b | None \<Rightarrow> (\<lambda>s. s)) s1)"
    and "nodes s1 = nodes (updateNode k (setAttribute a v) s)"
    and "dispatched s1 = dispatched s" and "activeElement s1 = activeElement s"
    and "tabs s1 = tabs s"
  shows "dispatched s' = dispatched s @ [CustomEvent name detail] \<and>
         activeElement s' = (case trigger of Some b \<Rightarrow> Some b | None \<Rightarrow> activeElement s) \<and>
         map classList (nodes s') = map classList (nodes s) \<and>
         tabs s' = tabs s"
  using assms setAttribute_classes [of k a v s]
  by (cases trigger) (simp_all add: dispatchCustomEvent_def focus_def)

text \<open>
  Claim C5, amended. Closing a surface that is closed (its element is there and does not
  carry the surface's active class) is no error and leaves every class list, hence the
  closed state of every surface, and the tab configuration as they were; but it
  publishes the surface's Closed event once and moves the focus to the surface's
  trigger when the trigger exists. This holds for the notification panel, the account
  menu and the settings dialog.
\<close>

theorem close_on_closed_surface:
  "(getElementById ''notification-modal'' this = Some m \<and>
    \<not> classContains ''notification-modal--active'' (nodes this ! m) \<longrightarrow>
      dispatched (closeNotificationModal this) =
        dispatched this @ [CustomEvent ''notificationModalClosed'' (Obj fmempty)] \<and>
      activeElement (closeNotificationModal this) =
        (case getElementById ''notification-btn'' this of
           Some b \<Rightarrow> Some b | None \<Rightarrow> activeElement this) \<and>
      map classList (nodes (closeNotificationModal this)) = map classList (nodes this) \<and>
      tabs (closeNotificationModal this) = tabs this) \<and>
   (querySelector ''user-dropdown'' this = Some u \<and>
    getElementById ''user-dropdown-menu'' this = Some d \<and>
    \<not> classContains ''user-dropdown--active'' (nodes this ! u) \<longrightarrow>
      dispatched (closeUserDropdown this) =
        dispatched this @ [CustomEvent ''userDropdownClosed'' (Obj fmempty)] \<and>
      activeElement (closeUserDropdown this) =
        (case getElementById ''user-dropdown-trigger'' this of
           Some b \<Rightarrow> Some b | None \<Rightarrow> activeElement this) \<and>
      map classList (nodes (closeUserDropdown this)) = map classList (nodes this) \<and>
      tabs (closeUserDropdown this) = tabs this) \<and>
   (getElementById ''email-modal'' this = Some e \<and>
    \<not> classContains ''email-modal--active'' (nodes this ! e) \<longrightarrow>
      dispatched (closeEmailModal this) =
        dispatched this @ [CustomEvent ''emailModalClosed'' (Obj fmempty)] \<and>
      activeElement (closeEmailModal this) =
        (case getElementById ''email-notifications-btn'' this of
           Some b \<Rightarrow> Some b | None \<Rightarrow> activeElement this) \<and>
      map classList (nodes (closeEmailModal this)) = map classList (nodes this) \<and>
      tabs (closeEmailModal this) = tabs this)"
proof (intro conjI impI)
  assume a: "getElementById ''notification-modal'' this = Some m \<and>
    \<not> classContains ''notification-modal--active'' (nodes this ! m)"
  then have eq: "closeNotificationModal this =
           dispatchCustomEvent ''notificationModalClosed'' (Obj fmempty)
             ((case getElementById ''notification-btn'' this of
                 Some b \<Rightarrow> focus b | None \<Rightarrow> (\<lambda>s. s))
                (updateNode m (setAttribute ''aria-hidden'' ''true'') this))"
    by (simp add: closeNotificationModal_closed)
  note fx = closed_surface_effects [OF eq refl, simplified updateNode_def, simplified]
  show "dispatched (closeNotificationModal this) =
        dispatched this @ [CustomEvent ''notificationModalClosed'' (Obj fmempty)]"
    using fx by simp
  show "activeElement (closeNotificationModal this) =
        (case getElementById ''notification-btn'' this of
           Some b \<Rightarrow> Some b | None \<Rightarrow> activeElement this)"
    using fx by simp
  show "map classList (nodes (closeNotificationModal this)) = map classList (nodes this)"
    using fx by simp
  show "tabs (closeNotificationModal this) = tabs this"
    using fx by simp
next
  assume a: "querySelector ''user-dropdown'' this = Some u \<and>
    getElementById ''user-dropdown-menu'' this = Some d \<and>
    \<not> classContains ''user-dropdown--active'' (nodes this ! u)"
  then have eq: "closeUserDropdown this =
           dispatchCustomEvent ''userDropdownClosed'' (Obj fmempty)
             ((case getElementById ''user-dropdown-trigger'' this of
                 Some b \<Rightarrow> focus b | None \<Rightarrow> (\<lambda>s. s))
                (updateNode d (setAttribute ''aria-hidden'' ''true'') this))"
    by (simp add: closeUserDropdown_closed)
  note fx = closed_surface_effects [OF eq refl, simplified updateNode_def, simplified]
  show "dispatched (closeUserDropdown this) =
        dispatched this @ [CustomEvent ''userDropdownClosed'' (Obj fmempty)]"
    using fx by simp
  show "activeElement (closeUserDropdown this) =
        (case getElementById ''user-dropdown-trigger'' this of
           Some b \<Rightarrow> Some b | None \<Rightarrow> activeElement this)"
    using fx by simp
  show "map classList (nodes (closeUserDropdown this)) = map classList (nodes this)"
    using fx by simp
  show "tabs (closeUserDropdown this) = tabs this"
    using fx by simp
next
  assume a: "getElementById ''email-modal'' this = Some e \<and>
    \<not> classContains ''email-modal--active'' (nodes this ! e)"
  then have eq: "closeEmailModal this =
           dispatchCustomEvent ''emailModalClosed'' (Obj fmempty)
             ((case getElementById ''email-notifications-btn'' this of
                 Some b \<Rightarrow> focus b | None \<Rightarrow> (\<lambda>s. s))
                ((updateNode e (setAttribute ''aria-hidden'' ''true'') this)\<lparr>bodyOverflow := []\<rparr>))"
    by (simp add: closeEmailModal_closed)
  have n: "nodes ((updateNode e (setAttribute ''aria-hidden'' ''true'') this)\<lparr>bodyOverflow := []\<rparr>)
         = nodes (updateNode e (setAttribute ''aria-hidden'' ''true'') this)"
    by simp
  note fx = closed_surface_effects [OF eq n, simplified updateNode_def, simplified]
  show "dispatched (closeEmailModal this) =
        dispatched this @ [CustomEvent ''emailModalClosed'' (Obj fmempty)]"
    using fx by simp
  show "activeElement (closeEmailModal this) =
        (case getElementById ''email-notifications-btn'' this of
           Some b \<Rightarrow> Some b | None \<Rightarrow> activeElement this)"
    using fx by simp
  show "map classList (nodes (closeEmailModal this)) = map classList (nodes this)"
    using fx by simp
  show "tabs (closeEmailModal this) = tabs this"
    using fx by simp
qed

theorem close_on_closed_surface_witness:
  "getElementById ''notification-modal'' overlayPage = Some 1 \<and>
   \<not> classContains ''notification-modal--active'' (nodes overlayPage ! 1) \<and>
   map classList (nodes (closeNotificationModal overlayPage)) = map classList (nodes overlayPage) \<and>
   querySelector ''user-dropdown'' overlayPage = Some 2 \<and>
   getElementById ''user-dropdown-menu'' overlayPage = Some 4 \<and>
   \<not> classContains ''user-dropdown--active'' (nodes overlayPage ! 2) \<and>
   map classList (nodes (closeUserDropdown overlayPage)) = map classList (nodes overlayPage) \<and>
   getElementById ''email-modal'' overlayPage = Some 6 \<and>
   \<not> classContains ''email-modal--active'' (nodes overlayPage ! 6) \<and>
   map classList (nodes (closeEmailModal overlayPage)) = map classList (nodes overlayPage)"
proof -
  have n: "getElementById ''notification-modal'' overlayPage = Some 1 \<and>
           \<not> classContains ''notification-modal--active'' (nodes overlayPage ! 1)"
    by code_simp
  have u: "querySelector ''user-dropdown'' overlayPage = Some 2 \<and>
           getElementById ''user-dropdown-menu'' overlayPage = Some 4 \<and>
           \<not> classContains ''user-dropdown--active'' (nodes overlayPage ! 2)"
    by code_simp
  have e: "getElementById ''email-modal'' overlayPage = Some 6 \<and>
           \<not> classContains ''email-modal--active'' (nodes overlayPage ! 6)"
    by code_simp
  from close_on_closed_surface [of overlayPage 1 2 4 6] n u e show ?thesis by blast
qed

subsection \<open>The timer display\<close>













subsection \<open>Keyboard and pointer\<close>

lemma findIndex_distinct:
  "distinct xs \<Longrightarrow> k < length xs \<Longrightarrow> findIndex (\<lambda>y. y = xs ! k) xs = Some k"
proof (induction xs arbitrary: k)
  case Nil
  then show ?case by simp
next
  case (Cons x xs)
  show ?case
  proof (cases k)
    case 0
    then show ?thesis by simp
  next
    case (Suc j)
    with Cons.prems have "x \<noteq> xs ! j" and "findIndex (\<lambda>y. y = xs ! j) xs = Some j"
      using Cons.IH [of j] by auto
    with Suc show ?thesis by simp
  qed
qed

lemma distinct_querySelectorAll: "distinct (querySelectorAll c this)"
  by (simp add: querySelectorAll_def)

lemma indexOf_tabButtons:
  assumes "k < length (querySelectorAll c this)"
  shows "indexOf (querySelectorAll c this ! k) (querySelectorAll c this) = int k"
  using findIndex_distinct [OF distinct_querySelectorAll assms] by (simp add: indexOf_def)

lemma focusAt_in_range: "j < length bs \<Longrightarrow> focusAt bs (int j) this = Inr (focus (bs ! j) this)"
  by (simp add: focusAt_def nthOpt_def)

lemma getActiveTabId_focus: "getActiveTabId (focus x this) = getActiveTabId this"
  by (rule getActiveTabId_nodes) (simp add: focus_def)

lemma activeMarkers_focus: "activeMarkers (focus x this) = activeMarkers this"
  by (simp add: activeMarkers_def querySelectorAll_def focus_def)

lemma truthy_extract_button:
  "0 < n \<Longrightarrow> extractTabId (''tab-'' @ numToString n) = Num n \<and> truthy (Num n)"
  using extractTabId_button [of n] by simp

lemma int_pred: "0 < n \<Longrightarrow> int (n - 1) = int n - 1"
  by (cases n) simp_all

lemma wrap_left:
  assumes "k < n"
  shows "(if int k > 0 then int k - 1 else int n - 1) = int ((k + n - 1) mod n)"
proof (cases k)
  case 0
  with assms have m: "(k + n - 1) mod n = n - 1" by simp
  from assms have "0 < n" by simp
  then have "int (n - 1) = int n - 1" by (rule int_pred)
  with 0 m show ?thesis by simp
next
  case (Suc j)
  then have "k + n - 1 = j + n" by simp
  moreover have "j < n" using assms Suc by simp
  ultimately have m: "(k + n - 1) mod n = j" by simp
  show ?thesis unfolding m using Suc by simp
qed

lemma wrap_right:
  assumes "k < n"
  shows "(if int k < int n - 1 then int k + 1 else 0) = int ((k + 1) mod n)"
proof (cases "Suc k < n")
  case True
  then have "(k + 1) mod n = Suc k" by simp
  with True show ?thesis by simp
next
  case False
  with assms have "Suc k = n" by simp
  then have "(k + 1) mod n = 0" and "\<not> int k < int n - 1" by auto
  then show ?thesis by simp
qed

lemma key_arrows:
  assumes k: "k < length (querySelectorAll ''tab-navigation__button'' this)"
  shows "handleTabKeyNavigation ''ArrowLeft'' (querySelectorAll ''tab-navigation__button'' this ! k) this =
           Inr (focus (querySelectorAll ''tab-navigation__button'' this !
                  ((k + length (querySelectorAll ''tab-navigation__button'' this) - 1)
                     mod length (querySelectorAll ''tab-navigation__button'' this))) this)"
    and "handleTabKeyNavigation ''ArrowRight'' (querySelectorAll ''tab-navigation__button'' this ! k) this =
           Inr (focus (querySelectorAll ''tab-navigation__button'' this !
                  ((k + 1) mod length (querySelectorAll ''tab-navigation__button'' this))) this)"
    and "handleTabKeyNavigation ''Home'' (querySelectorAll ''tab-navigation__button'' this ! k) this =
           Inr (focus (querySelectorAll ''tab-navigation__button'' this ! 0) this)"
    and "handleTabKeyNavigation ''End'' (querySelectorAll ''tab-navigation__button'' this ! k) this =
           Inr (focus (querySelectorAll ''tab-navigation__button'' this !
                  (length (querySelectorAll ''tab-navigation__button'' this) - 1)) this)"
proof -
  let ?bs = "querySelectorAll ''tab-navigation__button'' this"
  have pos: "0 < length ?bs" using k by (rule le_less_trans [OF le0])
  have idx: "indexOf (?bs ! k) ?bs = int k" using k by (rule indexOf_tabButtons)
  have "(k + length ?bs - 1) mod length ?bs < length ?bs" using pos by (rule mod_less_divisor)
  then have l: "focusAt ?bs (int ((k + length ?bs - 1) mod length ?bs)) this =
               Inr (focus (?bs ! ((k + length ?bs - 1) mod length ?bs)) this)"
    by (rule focusAt_in_range)
  have "(k + 1) mod length ?bs < length ?bs" using pos by (rule mod_less_divisor)
  then have r: "focusAt ?bs (int ((k + 1) mod length ?bs)) this =
               Inr (focus (?bs ! ((k + 1) mod length ?bs)) this)"
    by (rule focusAt_in_range)
  have h: "focusAt ?bs 0 this = Inr (focus (?bs ! 0) this)"
    using focusAt_in_range [OF pos, of this] by simp
  have "length ?bs - 1 < length ?bs" using pos by simp
  then have "focusAt ?bs (int (length ?bs - 1)) this = Inr (focus (?bs ! (length ?bs - 1)) this)"
    by (rule focusAt_in_range)
  then have e: "focusAt ?bs (int (length ?bs) - 1) this = Inr (focus (?bs ! (length ?bs - 1)) this)"
    using int_pred [OF pos] by simp
  show "handleTabKeyNavigation ''ArrowLeft'' (?bs ! k) this =
           Inr (focus (?bs ! ((k + length ?bs - 1) mod length ?bs)) this)"
    unfolding handleTabKeyNavigation_def Let_def idx wrap_left [OF k] l by simp
  show "handleTabKeyNavigation ''ArrowRight'' (?bs ! k) this =
           Inr (focus (?bs ! ((k + 1) mod length ?bs)) this)"
    unfolding handleTabKeyNavigation_def Let_def idx wrap_right [OF k] r by simp
  show "handleTabKeyNavigation ''Home'' (?bs ! k) this = Inr (focus (?bs ! 0) this)"
    unfolding handleTabKeyNavigation_def Let_def h by simp
  show "handleTabKeyNavigation ''End'' (?bs ! k) this = Inr (focus (?bs ! (length ?bs - 1)) this)"
    unfolding handleTabKeyNavigation_def Let_def e by simp
qed

lemma key_activate:
  assumes "0 < n" and "elemId (nodes this ! currentButton) = ''tab-'' @ numToString n"
  shows "handleTabKeyNavigation ''Enter'' currentButton this = Inr (activateTab (Num n) this)"
    and "handleTabKeyNavigation '' '' currentButton this = Inr (activateTab (Num n) this)"
    and "tabButtonClick currentButton this = activateTab (Num n) this"
proof -
  have x: "extractTabId (elemId (nodes this ! currentButton)) = Num n"
    using truthy_extract_button [OF assms(1)] assms(2) by simp
  have t: "truthy (Num n)" using assms(1) by simp
  show "handleTabKeyNavigation ''Enter'' currentButton this = Inr (activateTab (Num n) this)"
    unfolding handleTabKeyNavigation_def Let_def x using t by simp
  show "handleTabKeyNavigation '' '' currentButton this = Inr (activateTab (Num n) this)"
    unfolding handleTabKeyNavigation_def Let_def x using t by simp
  show "tabButtonClick currentButton this = activateTab (Num n) this"
    unfolding tabButtonClick_def Let_def x using t by simp
qed

lemma key_other:
  assumes "key \<notin> {''ArrowLeft'', ''ArrowRight'', ''Home'', ''End'', ''Enter'', '' ''}"
  shows "handleTabKeyNavigation key currentButton this = Inr this"
proof -
  from assms have "key \<noteq> ''ArrowLeft''" "key \<noteq> ''ArrowRight''" "key \<noteq> ''Home''"
    "key \<noteq> ''End''" "key \<noteq> ''Enter''" "key \<noteq> '' ''"
    by blast+
  then show ?thesis
    unfolding handleTabKeyNavigation_def Let_def by (simp only: if_False simp_thms)
qed

lemma focus_keeps_selection:
  "getActiveTabId (focus target this) = getActiveTabId this \<and>
   activeMarkers (focus target this) = activeMarkers this \<and>
   dispatched (focus target this) = dispatched this"
  by (simp add: getActiveTabId_focus activeMarkers_focus) (simp add: focus_def)


lemma classContains_classAdd: "classContains x e \<Longrightarrow> classContains x (classAdd c e)"
  by (simp add: classContains_def classAdd_def)

lemma classContains_classAdd_same: "classContains c (classAdd c e)"
  by (simp add: classContains_def classAdd_def)

lemma classContains_setAttribute: "classContains x (setAttribute a v e) = classContains x e"
  by (simp add: classContains_def setAttribute_def)

text \<open>What a successful \<open>activateTab\<close> leaves behind: the event and the two markers.\<close>

lemma activateTab_success:
  assumes b: "getElementById (''tab-'' @ toString tabId) this = Some b"
    and p: "getElementById (''tab-panel-'' @ toString tabId) this = Some p"
  shows "dispatched (activateTab tabId this) =
           dispatched this @
           [CustomEvent ''tabChanged''
              (Obj (fmap_of_list [(''tabId'', tabId), (''tabTitle'', findTabTitle tabId this)]))]"
    and "classContains ''tab-navigation__button--active'' (nodes (activateTab tabId this) ! b)"
    and "classContains ''tab-content--active'' (nodes (activateTab tabId this) ! p)"
    and "tabs (activateTab tabId this) = tabs this"
proof -
  define this1 where "this1 = forEachSelected ''tab-navigation__button''
                    (\<lambda>btn. setAttribute ''aria-selected'' ''false''
                             (classRemove ''tab-navigation__button--active'' btn)) this"
  define this2 where "this2 = forEachSelected ''tab-content'' (classRemove ''tab-content--active'') this1"
  define this3 where "this3 = updateNode b
                            (\<lambda>b. setAttribute ''aria-selected'' ''true''
                                   (classAdd ''tab-navigation__button--active'' b)) this2"
  define this4 where "this4 = updateNode p (classAdd ''tab-content--active'') this3"
  have g: "getElementById i this2 = getElementById i this" for i
    unfolding this2_def this1_def
    by (simp add: getElementById_forEachSelected setAttribute_def classRemove_def)
  have len2: "length (nodes this2) = length (nodes this)"
    by (simp add: this2_def this1_def forEachSelected_def)
  have bl: "b < length (nodes this2)" and pl: "p < length (nodes this2)"
    using getElementById_bound [OF b] getElementById_bound [OF p] len2 by simp_all
  have body: "activateTabBody tabId this =
      Inr (dispatchCustomEvent ''tabChanged''
             (Obj (fmap_of_list [(''tabId'', tabId), (''tabTitle'', findTabTitle tabId this4)])) this4)"
    unfolding activateTabBody_def Let_def this1_def [symmetric] this2_def [symmetric] g b p
    by (simp add: this4_def this3_def)
  then have a: "activateTab tabId this =
      dispatchCustomEvent ''tabChanged''
        (Obj (fmap_of_list [(''tabId'', tabId), (''tabTitle'', findTabTitle tabId this4)])) this4"
    by (simp add: activateTab_def)
  have t4: "tabs this4 = tabs this"
    by (simp add: this4_def this3_def this2_def this1_def updateNode_def forEachSelected_def)
  have d4: "dispatched this4 = dispatched this"
    by (simp add: this4_def this3_def this2_def this1_def updateNode_def forEachSelected_def)
  have title: "findTabTitle tabId this4 = findTabTitle tabId this"
    by (simp add: findTabTitle_def t4)
  show "dispatched (activateTab tabId this) =
           dispatched this @
           [CustomEvent ''tabChanged''
              (Obj (fmap_of_list [(''tabId'', tabId), (''tabTitle'', findTabTitle tabId this)]))]"
    by (simp add: a dispatchCustomEvent_def d4 title)
  show "tabs (activateTab tabId this) = tabs this"
    by (simp add: a dispatchCustomEvent_def t4)
  have n: "nodes (activateTab tabId this) = nodes this4"
    by (simp add: a dispatchCustomEvent_def)
  have b3: "classContains ''tab-navigation__button--active'' (nodes this3 ! b)"
    using bl
    by (simp add: this3_def updateNode_def classContains_setAttribute classContains_classAdd_same)
  have len3: "length (nodes this3) = length (nodes this2)"
    by (simp add: this3_def updateNode_def)
  show "classContains ''tab-navigation__button--active'' (nodes (activateTab tabId this) ! b)"
    using b3 bl len3
    by (cases "b = p") (simp_all add: n this4_def updateNode_def classContains_classAdd)
  show "classContains ''tab-content--active'' (nodes (activateTab tabId this) ! p)"
    using pl len3 by (simp add: n this4_def updateNode_def classContains_classAdd_same)
qed

lemma selection_ignores_focus:
  "getActiveTabId (this\<lparr>activeElement := a\<rparr>) = getActiveTabId this \<and>
   activeMarkers (this\<lparr>activeElement := a\<rparr>) = activeMarkers this \<and>
   dispatched (this\<lparr>activeElement := a\<rparr>) = dispatched this \<and>
   tabs (this\<lparr>activeElement := a\<rparr>) = tabs this"
  by (simp add: getActiveTabId_nodes [of "this\<lparr>activeElement := a\<rparr>" this]
        activeMarkers_def querySelectorAll_def)

text \<open>
  Claim C8. Let \<open>currentButton\<close> be the \<open>k\<close>-th of the tab triggers, in document order.
  After ArrowLeft and ArrowRight the focused element of the document is the trigger
  before and after it, wrapping round at both ends; after Home and End it is the first
  and the last trigger; nothing else of the state changes. A change of the focused
  element changes neither what \<open>getActiveTabId\<close> answers, nor the active markers, nor the
  events dispatched, nor the configuration. Enter and the space key on the trigger
  \<open>tab-n\<close> of a tab with a positive id, and a click on it, do what \<open>activateTab(n)\<close> does,
  which, when the trigger and the panel of \<open>n\<close> are in the document, publishes
  \<open>tabChanged\<close> for \<open>n\<close> and sets both active markers; every other key leaves the state as
  it is.
\<close>

theorem tab_key_navigation:
  assumes buttons: "tabButtons = querySelectorAll ''tab-navigation__button'' this"
    and k: "k < length tabButtons"
    and current: "currentButton = tabButtons ! k"
  shows "handleTabKeyNavigation ''ArrowLeft'' currentButton this =
           Inr (this\<lparr>activeElement :=
                      Some (tabButtons ! ((k + length tabButtons - 1) mod length tabButtons))\<rparr>) \<and>
         handleTabKeyNavigation ''ArrowRight'' currentButton this =
           Inr (this\<lparr>activeElement := Some (tabButtons ! ((k + 1) mod length tabButtons))\<rparr>) \<and>
         handleTabKeyNavigation ''Home'' currentButton this =
           Inr (this\<lparr>activeElement := Some (tabButtons ! 0)\<rparr>) \<and>
         handleTabKeyNavigation ''End'' currentButton this =
           Inr (this\<lparr>activeElement := Some (tabButtons ! (length tabButtons - 1))\<rparr>) \<and>
         (\<forall>a. getActiveTabId (this\<lparr>activeElement := a\<rparr>) = getActiveTabId this \<and>
              activeMarkers (this\<lparr>activeElement := a\<rparr>) = activeMarkers this \<and>
              dispatched (this\<lparr>activeElement := a\<rparr>) = dispatched this \<and>
              tabs (this\<lparr>activeElement := a\<rparr>) = tabs this) \<and>
         (\<forall>n. 0 < n \<and> elemId (nodes this ! currentButton) = ''tab-'' @ numToString n \<longrightarrow>
              handleTabKeyNavigation ''Enter'' currentButton this = Inr (activateTab (Num n) this) \<and>
              handleTabKeyNavigation '' '' currentButton this = Inr (activateTab (Num n) this) \<and>
              tabButtonClick currentButton this = activateTab (Num n) this) \<and>
         (\<forall>n p. getElementById (''tab-'' @ numToString n) this = Some currentButton \<and>
                getElementById (''tab-panel-'' @ numToString n) this = Some p \<longrightarrow>
              dispatched (activateTab (Num n) this) =
                dispatched this @
                [CustomEvent ''tabChanged''
                   (Obj (fmap_of_list [(''tabId'', Num n),
                                       (''tabTitle'', findTabTitle (Num n) this)]))] \<and>
              classContains ''tab-navigation__button--active''
                (nodes (activateTab (Num n) this) ! currentButton) \<and>
              classContains ''tab-content--active'' (nodes (activateTab (Num n) this) ! p)) \<and>
         (\<forall>key. key \<notin> {''ArrowLeft'', ''ArrowRight'', ''Home'', ''End'', ''Enter'', '' ''} \<longrightarrow>
              handleTabKeyNavigation key currentButton this = Inr this)"
proof -
  from k have k': "k < length (querySelectorAll ''tab-navigation__button'' this)"
    unfolding buttons .
  note arrows = key_arrows [OF k', folded buttons, folded current, unfolded focus_def]
  show ?thesis
  proof (intro conjI allI impI)
    show "handleTabKeyNavigation ''ArrowLeft'' currentButton this =
           Inr (this\<lparr>activeElement :=
                      Some (tabButtons ! ((k + length tabButtons - 1) mod length tabButtons))\<rparr>)"
      by (rule arrows(1))
    show "handleTabKeyNavigation ''ArrowRight'' currentButton this =
           Inr (this\<lparr>activeElement := Some (tabButtons ! ((k + 1) mod length tabButtons))\<rparr>)"
      by (rule arrows(2))
    show "handleTabKeyNavigation ''Home'' currentButton this =
           Inr (this\<lparr>activeElement := Some (tabButtons ! 0)\<rparr>)"
      by (rule arrows(3))
    show "handleTabKeyNavigation ''End'' currentButton this =
           Inr (this\<lparr>activeElement := Some (tabButtons ! (length tabButtons - 1))\<rparr>)"
      by (rule arrows(4))
  next
    fix a
    show "getActiveTabId (this\<lparr>activeElement := a\<rparr>) = getActiveTabId this"
      and "activeMarkers (this\<lparr>activeElement := a\<rparr>) = activeMarkers this"
      and "dispatched (this\<lparr>activeElement := a\<rparr>) = dispatched this"
      and "tabs (this\<lparr>activeElement := a\<rparr>) = tabs this"
      using selection_ignores_focus [of a this] by simp_all
  next
    fix n :: int
    assume "0 < n \<and> elemId (nodes this ! currentButton) = ''tab-'' @ numToString n"
    then have n: "0 < n" and i: "elemId (nodes this ! currentButton) = ''tab-'' @ numToString n"
      by simp_all
    show "handleTabKeyNavigation ''Enter'' currentButton this = Inr (activateTab (Num n) this)"
      using n i by (rule key_activate(1))
    show "handleTabKeyNavigation '' '' currentButton this = Inr (activateTab (Num n) this)"
      using n i by (rule key_activate(2))
    show "tabButtonClick currentButton this = activateTab (Num n) this"
      using n i by (rule key_activate(3))
  next
    fix n :: int and p :: nat
    assume "getElementById (''tab-'' @ numToString n) this = Some currentButton \<and>
            getElementById (''tab-panel-'' @ numToString n) this = Some p"
    then have b: "getElementById (''tab-'' @ toString (Num n)) this = Some currentButton"
      and p: "getElementById (''tab-panel-'' @ toString (Num n)) this = Some p"
      by simp_all
    show "dispatched (activateTab (Num n) this) =
                dispatched this @
                [CustomEvent ''tabChanged''
                   (Obj (fmap_of_list [(''tabId'', Num n),
                                       (''tabTitle'', findTabTitle (Num n) this)]))]"
      using b p by (rule activateTab_success(1))
    show "classContains ''tab-navigation__button--active''
                (nodes (activateTab (Num n) this) ! currentButton)"
      using b p by (rule activateTab_success(2))
    show "classContains ''tab-content--active'' (nodes (activateTab (Num n) this) ! p)"
      using b p by (rule activateTab_success(3))
  next
    fix key :: string
    assume "key \<notin> {''ArrowLeft'', ''ArrowRight'', ''Home'', ''End'', ''Enter'', '' ''}"
    then show "handleTabKeyNavigation key currentButton this = Inr this"
      by (rule key_other)
  qed
qed

theorem tab_key_navigation_witness:
  "querySelectorAll ''tab-navigation__button'' examplePage = [1, 2, 3, 4, 5, 6] \<and>
   activeElement examplePage = None \<and>
   handleTabKeyNavigation ''ArrowLeft'' 1 examplePage = Inr (examplePage\<lparr>activeElement := Some 6\<rparr>) \<and>
   handleTabKeyNavigation ''ArrowRight'' 1 examplePage = Inr (examplePage\<lparr>activeElement := Some 2\<rparr>) \<and>
   handleTabKeyNavigation ''Home'' 1 examplePage = Inr (examplePage\<lparr>activeElement := Some 1\<rparr>) \<and>
   handleTabKeyNavigation ''End'' 1 examplePage = Inr (examplePage\<lparr>activeElement := Some 6\<rparr>) \<and>
   getActiveTabId (examplePage\<lparr>activeElement := Some 6\<rparr>) = getActiveTabId examplePage \<and>
   elemId (nodes examplePage ! 1) = ''tab-'' @ numToString 1 \<and>
   handleTabKeyNavigation ''Enter'' 1 examplePage = Inr (activateTab (Num 1) examplePage) \<and>
   getElementById (''tab-'' @ numToString 1) examplePage = Some 1 \<and>
   getElementById (''tab-panel-'' @ numToString 1) examplePage = Some 8 \<and>
   classContains ''tab-content--active'' (nodes (activateTab (Num 1) examplePage) ! 8)"
proof -
  have b: "[1, 2, 3, 4, 5, 6] = querySelectorAll ''tab-navigation__button'' examplePage"
    by code_simp
  have i: "elemId (nodes examplePage ! 1) = ''tab-'' @ numToString 1" by code_simp
  have f: "activeElement examplePage = None" by code_simp
  have gb: "getElementById (''tab-'' @ numToString 1) examplePage = Some 1" by code_simp
  have gp: "getElementById (''tab-panel-'' @ numToString 1) examplePage = Some 8" by code_simp
  have k: "0 < length [1::nat, 2, 3, 4, 5, 6]" by simp
  have c: "(1::nat) = [1, 2, 3, 4, 5, 6] ! 0" by simp
  note t = tab_key_navigation [OF b k c]
  from t have "handleTabKeyNavigation ''ArrowLeft'' 1 examplePage =
      Inr (examplePage\<lparr>activeElement := Some 6\<rparr>)"
    by simp
  moreover from t have "handleTabKeyNavigation ''ArrowRight'' 1 examplePage =
      Inr (examplePage\<lparr>activeElement := Some 2\<rparr>)"
    by simp
  moreover from t have "handleTabKeyNavigation ''Home'' 1 examplePage =
      Inr (examplePage\<lparr>activeElement := Some 1\<rparr>)"
    by simp
  moreover from t have "handleTabKeyNavigation ''End'' 1 examplePage =
      Inr (examplePage\<lparr>activeElement := Some 6\<rparr>)"
    by simp
  moreover from t
  have "getActiveTabId (examplePage\<lparr>activeElement := Some 6\<rparr>) = getActiveTabId examplePage"
    by blast
  moreover from t i
  have "handleTabKeyNavigation ''Enter'' 1 examplePage = Inr (activateTab (Num 1) examplePage)"
    by simp
  moreover from t gb gp
  have "classContains ''tab-content--active'' (nodes (activateTab (Num 1) examplePage) ! 8)"
    by blast
  ultimately show ?thesis using b i f gb gp by simp
qed

subsection \<open>Updating a descriptor\<close>

lemma tabs_dispatchCustomEvent: "tabs (dispatchCustomEvent name d s) = tabs s"
  by (simp add: dispatchCustomEvent_def)

lemma updateTabContent_tabs:
  assumes "getElementById (''tab-panel-'' @ toString tabId) this = Some panel"
    and "findIndex (\<lambda>tab. strictEq (readProp tab ''id'') tabId) (tabs this) = Some tabIndex"
  shows "tabs (updateTabContent tabId newConfig this) =
           (tabs this)[tabIndex := tabs this ! tabIndex ++\<^sub>f newConfig]"
  using assms
  by (simp add: updateTabContent_def updateTabContentBody_def Let_def tabs_handleError
        tabs_dispatchCustomEvent split: sum.splits)

lemma updateTabContent_without_panel:
  assumes "getElementById (''tab-panel-'' @ toString tabId) this = None"
  shows "updateTabContent tabId newConfig this =
           handleError (Error (''Tab panel not found for ID: '' @ toString tabId)) ''tab-update'' this"
    and "tabs (updateTabContent tabId newConfig this) = tabs this"
  using assms by (simp_all add: updateTabContent_def updateTabContentBody_def tabs_handleError)

text \<open>
  Claim C9, as stated: for every existing \<open>tabId\<close>, \<open>updateTabContent\<close> stores the merge of
  the old descriptor and \<open>newConfig\<close>. After \<open>addTab({id: 7, title: "X", attributes: {}})\<close>
  on the example page the descriptor of tab 7 is in the configuration (at index 6, with
  title \<open>X\<close>) but tab 7 has no panel; \<open>updateTabContent(7, {title: "Y"})\<close> is refused with
  \<open>Tab panel not found\<close>, and the stored title is still \<open>X\<close>.
\<close>

theorem updateTabContent_descriptor_without_panel_counterexample:
  "findIndex (\<lambda>tab. strictEq (readProp tab ''id'') (Num 7)) (tabs (addTab bareTab examplePage)) = Some 6 \<and>
   readProp (tabs (addTab bareTab examplePage) ! 6) ''title'' = Str ''X'' \<and>
   getElementById ''tab-panel-7'' (addTab bareTab examplePage) = None \<and>
   readProp (tabs (updateTabContent (Num 7) (fmap_of_list [(''title'', Str ''Y'')])
                     (addTab bareTab examplePage)) ! 6) ''title'' = Str ''X'' \<and>
   tabs (updateTabContent (Num 7) (fmap_of_list [(''title'', Str ''Y'')]) (addTab bareTab examplePage)) =
     tabs (addTab bareTab examplePage) \<and>
   last (dispatched (updateTabContent (Num 7) (fmap_of_list [(''title'', Str ''Y'')])
                       (addTab bareTab examplePage))) =
     CustomEvent ''dashboardError''
       (Obj (fmap_of_list [(''message'', Str ''Tab panel not found for ID: 7''),
                           (''context'', Str ''tab-update'')]))"
  by code_simp

text \<open>
  Claim C9, amended. When \<open>tabId\<close> names a tab that has its panel in the document and its
  descriptor in the configuration (the first one with that id, at \<open>tabIndex\<close>),
  \<open>updateTabContent(tabId, newConfig)\<close> stores the merge: every property named in
  \<open>newConfig\<close> has its new value, every other property of the descriptor keeps its
  value, and every other descriptor is unchanged; this holds whether or not the panel
  then renders. When the panel of \<open>tabId\<close> is not in the document, the call is refused:
  it reports \<open>dashboardError\<close> with context \<open>tab-update\<close> and leaves the configuration as
  it was.
\<close>

theorem updateTabContent_shallow_merge:
  "(getElementById (''tab-panel-'' @ toString tabId) this = Some panel \<and>
    findIndex (\<lambda>tab. strictEq (readProp tab ''id'') tabId) (tabs this) = Some tabIndex \<longrightarrow>
      tabIndex < length (tabs this) \<and>
      strictEq (readProp (tabs this ! tabIndex) ''id'') tabId \<and>
      length (tabs (updateTabContent tabId newConfig this)) = length (tabs this) \<and>
      (\<forall>k. fmlookup (tabs (updateTabContent tabId newConfig this) ! tabIndex) k =
             (if k |\<in>| fmdom newConfig then fmlookup newConfig k
              else fmlookup (tabs this ! tabIndex) k)) \<and>
      (\<forall>j. j \<noteq> tabIndex \<longrightarrow>
             tabs (updateTabContent tabId newConfig this) ! j = tabs this ! j)) \<and>
   (getElementById (''tab-panel-'' @ toString tabId) this = None \<longrightarrow>
      tabs (updateTabContent tabId newConfig this) = tabs this \<and>
      dispatched (updateTabContent tabId newConfig this) =
        dispatched this @
        [CustomEvent ''dashboardError''
           (Obj (fmap_of_list [(''message'', Str (''Tab panel not found for ID: '' @ toString tabId)),
                               (''context'', Str ''tab-update'')]))])"
proof (intro conjI impI)
  assume a: "getElementById (''tab-panel-'' @ toString tabId) this = Some panel \<and>
    findIndex (\<lambda>tab. strictEq (readProp tab ''id'') tabId) (tabs this) = Some tabIndex"
  then have panel: "getElementById (''tab-panel-'' @ toString tabId) this = Some panel"
    and found: "findIndex (\<lambda>tab. strictEq (readProp tab ''id'') tabId) (tabs this) = Some tabIndex"
    by simp_all
  from found have i: "tabIndex < length (tabs this)"
    and s: "strictEq (readProp (tabs this ! tabIndex) ''id'') tabId"
    using findIndex_Some [of "\<lambda>tab. strictEq (readProp tab ''id'') tabId" "tabs this" tabIndex]
    by simp_all
  note t = updateTabContent_tabs [OF panel found, of newConfig]
  show "tabIndex < length (tabs this)" by (rule i)
  show "strictEq (readProp (tabs this ! tabIndex) ''id'') tabId" by (rule s)
  show "length (tabs (updateTabContent tabId newConfig this)) = length (tabs this)"
    by (simp add: t)
  show "\<forall>k. fmlookup (tabs (updateTabContent tabId newConfig this) ! tabIndex) k =
             (if k |\<in>| fmdom newConfig then fmlookup newConfig k
              else fmlookup (tabs this ! tabIndex) k)"
    using i by (simp add: t)
  show "\<forall>j. j \<noteq> tabIndex \<longrightarrow>
             tabs (updateTabContent tabId newConfig this) ! j = tabs this ! j"
    by (simp add: t)
next
  assume n: "getElementById (''tab-panel-'' @ toString tabId) this = None"
  show "tabs (updateTabContent tabId newConfig this) = tabs this"
    using n by (rule updateTabContent_without_panel(2))
  show "dispatched (updateTabContent tabId newConfig this) =
        dispatched this @
        [CustomEvent ''dashboardError''
           (Obj (fmap_of_list [(''message'', Str (''Tab panel not found for ID: '' @ toString tabId)),
                               (''context'', Str ''tab-update'')]))]"
    by (simp add: updateTabContent_without_panel(1) [OF n] handleError_def dispatchCustomEvent_def)
qed

theorem updateTabContent_shallow_merge_witness:
  "getElementById (''tab-panel-'' @ toString (Num 2)) examplePage = Some 9 \<and>
   findIndex (\<lambda>tab. strictEq (readProp tab ''id'') (Num 2)) (tabs examplePage) = Some 1 \<and>
   fmlookup (tabs (updateTabContent (Num 2) (fmap_of_list [(''title'', Str ''Updated'')]) examplePage) ! 1)
     ''title'' = Some (Str ''Updated'') \<and>
   fmlookup (tabs (updateTabContent (Num 2) (fmap_of_list [(''title'', Str ''Updated'')]) examplePage) ! 1)
     ''addressType'' = Some (Str ''Commercial'') \<and>
   tabs (updateTabContent (Num 2) (fmap_of_list [(''title'', Str ''Updated'')]) examplePage) ! 0 =
     tabs examplePage ! 0 \<and>
   getElementById (''tab-panel-'' @ toString (Num 99)) examplePage = None \<and>
   tabs (updateTabContent (Num 99) (fmap_of_list [(''title'', Str ''Updated'')]) examplePage) =
     tabs examplePage"
proof -
  have p: "getElementById (''tab-panel-'' @ toString (Num 2)) examplePage = Some 9" by code_simp
  have f: "findIndex (\<lambda>tab. strictEq (readProp tab ''id'') (Num 2)) (tabs examplePage) = Some 1"
    by code_simp
  have old: "fmlookup (tabs examplePage ! 1) ''addressType'' = Some (Str ''Commercial'')"
    by code_simp
  have none: "getElementById (''tab-panel-'' @ toString (Num 99)) examplePage = None" by code_simp
  from updateTabContent_shallow_merge
         [of "Num 2" examplePage 9 1 "fmap_of_list [(''title'', Str ''Updated'')]"] p f
  have t: "(\<forall>k. fmlookup (tabs (updateTabContent (Num 2) (fmap_of_list [(''title'', Str ''Updated'')]) examplePage) ! 1) k =
             (if k |\<in>| fmdom (fmap_of_list [(''title'', Str ''Updated'')])
              then fmlookup (fmap_of_list [(''title'', Str ''Updated'')]) k
              else fmlookup (tabs examplePage ! 1) k)) \<and>
      (\<forall>j. j \<noteq> 1 \<longrightarrow>
             tabs (updateTabContent (Num 2) (fmap_of_list [(''title'', Str ''Updated'')]) examplePage) ! j =
             tabs examplePage ! j)"
    by blast
  from t have "fmlookup (tabs (updateTabContent (Num 2) (fmap_of_list [(''title'', Str ''Updated'')]) examplePage) ! 1)
     ''title'' = Some (Str ''Updated'')"
    by (simp add: fmlookup_of_list)
  moreover from t old have "fmlookup (tabs (updateTabContent (Num 2) (fmap_of_list [(''title'', Str ''Updated'')]) examplePage) ! 1)
     ''addressType'' = Some (Str ''Commercial'')"
    by (simp add: fmlookup_of_list)
  moreover from t have "tabs (updateTabContent (Num 2) (fmap_of_list [(''title'', Str ''Updated'')]) examplePage) ! 0 =
     tabs examplePage ! 0"
    by simp
  moreover from updateTabContent_shallow_merge
         [of "Num 99" examplePage 0 0 "fmap_of_list [(''title'', Str ''Updated'')]"] none
  have "tabs (updateTabContent (Num 99) (fmap_of_list [(''title'', Str ''Updated'')]) examplePage) =
     tabs examplePage"
    by blast
  ultimately show ?thesis using p f none by simp
qed

end
